theory Spec2Isabelle
  imports Main "HOL-Library.Sublist" "HOL-Library.Word"
begin

unbundle bit_operations_syntax

section \<open>docker2aci: a shallow embedding of docker2aci.go\<close>

text \<open>
  The program is one Go file. Go strings are byte sequences, modelled as \<open>string\<close>
  (a list of 8-bit characters). A Go \<open>int\<close> is modelled as \<open>int\<close>; the only
  arithmetic the program does on one is the loop counter of \<open>runDocker2ACI\<close>.
  A function that returns \<open>(T, error)\<close> returns \<open>error + T\<close> here, with the
  error to the left; a run-time panic (an index out of range, a nil dereference, an
  explicit \<open>panic\<close>) is an error value of its own.
\<close>

datatype error = Error string | Panic string

subsection \<open>The functions of package strings that the program calls\<close>

text \<open>
  \<open>strings.Split\<close>, \<open>strings.SplitN\<close> and \<open>strings.Index\<close> are only ever called with
  a separator of one byte (\<open>","\<close>, \<open>":"\<close>, \<open>"/"\<close>, \<open>"."\<close>), so the separator is a
  character here. \<open>Split\<close> returns at least one element, also for the empty string.
\<close>

fun Split :: "string \<Rightarrow> char \<Rightarrow> string list" where
  "Split [] c = [[]]"
| "Split (x # xs) c =
     (if x = c then [] # Split xs c
      else (case Split xs c of [] \<Rightarrow> [[x]] | y # ys \<Rightarrow> (x # y) # ys))"

text \<open>
  \<open>cut s c\<close> is the text before the first \<open>c\<close> and, if there is one, the text after it.
\<close>

fun cut :: "string \<Rightarrow> char \<Rightarrow> string \<times> string option" where
  "cut [] c = ([], None)"
| "cut (x # xs) c =
     (if x = c then ([], Some xs)
      else (case cut xs c of (a, b) \<Rightarrow> (x # a, b)))"

text \<open>
  \<open>strings.SplitN(s, sep, n)\<close>: \<open>n = 0\<close> gives nil, \<open>n < 0\<close> all substrings, and
  \<open>n > 0\<close> at most \<open>n\<close> substrings, the last one the unsplit remainder.
\<close>

fun splitn :: "nat \<Rightarrow> string \<Rightarrow> char \<Rightarrow> string list" where
  "splitn 0 s c = []"
| "splitn (Suc 0) s c = [s]"
| "splitn (Suc (Suc n)) s c =
     (case cut s c of
        (a, None) \<Rightarrow> [a]
      | (a, Some b) \<Rightarrow> a # splitn (Suc n) b c)"

definition SplitN :: "string \<Rightarrow> char \<Rightarrow> int \<Rightarrow> string list" where
  "SplitN s c n = (if n < 0 then Split s c else splitn (nat n) s c)"

text \<open>\<open>strings.Index\<close>: the position of the first occurrence, or \<open>-1\<close>.\<close>

fun Index :: "string \<Rightarrow> char \<Rightarrow> int" where
  "Index [] c = - 1"
| "Index (x # xs) c =
     (if x = c then 0
      else (let i = Index xs c in if i = - 1 then - 1 else i + 1))"

fun Join :: "string list \<Rightarrow> string \<Rightarrow> string" where
  "Join [] sep = []"
| "Join [x] sep = x"
| "Join (x # y # ys) sep = x @ sep @ Join (y # ys) sep"

subsection \<open>The reference string\<close>

record DockerURL =
  IndexURL :: string
  ImageName :: string
  Tag :: string

definition defaultIndex :: string where
  "defaultIndex = ''index.docker.io''"

definition defaultTag :: string where
  "defaultTag = ''latest''"

definition rocketDir :: string where
  "rocketDir = ''/var/lib/rkt''"

definition schemaVersion :: string where
  "schemaVersion = ''0.1.1''"

text \<open>
  \<open>parseArgument\<close>. \<open>SplitN(arg, "/", 2)\<close> has one or two elements; the slice
  \<open>appParts[0 : len(appParts)-1]\<close> is \<open>butlast\<close> and \<open>appParts[len(appParts)-1]\<close> is
  \<open>last\<close>, both taken only where \<open>appParts\<close> has more than one element.
\<close>

definition parseArgument :: "string \<Rightarrow> DockerURL" where
  "parseArgument arg =
     (let argParts = SplitN arg CHR ''/'' 2;
          (indexURL, appString) =
            (if length argParts > 1 then
               (if Index (argParts ! 0) CHR ''.'' \<noteq> - 1
                then (argParts ! 0, argParts ! 1)
                else (defaultIndex, Join argParts ''/''))
             else (defaultIndex, argParts ! 0));
          appParts = Split appString CHR '':'';
          (imageName, tag) =
            (if length appParts > 1
             then (Join (butlast appParts) '':'', last appParts)
             else (appString, defaultTag))
      in \<lparr>IndexURL = indexURL, ImageName = imageName, Tag = tag\<rparr>)"

subsection \<open>Whitespace\<close>

text \<open>
  \<open>strings.TrimSpace\<close> removes leading and trailing white space as Unicode defines it
  (\<open>unicode.IsSpace\<close>), decoding the string as UTF-8. The white-space code points are
  the six of ASCII, U+0085 and U+00A0 (two bytes each), and U+1680, U+2000 to U+200A,
  U+2028, U+2029, U+202F, U+205F and U+3000 (three bytes each).
\<close>

definition space1 :: "char \<Rightarrow> bool" where
  "space1 a = (a = CHR 0x09 \<or> a = CHR 0x0A \<or> a = CHR 0x0B \<or> a = CHR 0x0C
     \<or> a = CHR 0x0D \<or> a = CHR 0x20)"

definition space2 :: "char \<Rightarrow> char \<Rightarrow> bool" where
  "space2 a b = (a = CHR 0xC2 \<and> (b = CHR 0x85 \<or> b = CHR 0xA0))"

definition space3 :: "char \<Rightarrow> char \<Rightarrow> char \<Rightarrow> bool" where
  "space3 a b c =
     ((a = CHR 0xE1 \<and> b = CHR 0x9A \<and> c = CHR 0x80)
      \<or> (a = CHR 0xE2 \<and> b = CHR 0x80
           \<and> (c \<in> set [CHR 0x80, CHR 0x81, CHR 0x82, CHR 0x83, CHR 0x84, CHR 0x85,
                          CHR 0x86, CHR 0x87, CHR 0x88, CHR 0x89, CHR 0x8A,
                          CHR 0xA8, CHR 0xA9, CHR 0xAF]))
      \<or> (a = CHR 0xE2 \<and> b = CHR 0x81 \<and> c = CHR 0x9F)
      \<or> (a = CHR 0xE3 \<and> b = CHR 0x80 \<and> c = CHR 0x80))"

fun TrimLeft :: "string \<Rightarrow> string" where
  "TrimLeft (a # b # c # s) =
     (if space1 a then TrimLeft (b # c # s)
      else if space2 a b then TrimLeft (c # s)
      else if space3 a b c then TrimLeft s
      else a # b # c # s)"
| "TrimLeft [a, b] =
     (if space1 a then TrimLeft [b] else if space2 a b then [] else [a, b])"
| "TrimLeft [a] = (if space1 a then [] else [a])"
| "TrimLeft [] = []"

text \<open>The same from the end, on the reversed string: the last byte comes first.\<close>

fun TrimLeft_rev :: "string \<Rightarrow> string" where
  "TrimLeft_rev (c # b # a # s) =
     (if space1 c then TrimLeft_rev (b # a # s)
      else if space2 b c then TrimLeft_rev (a # s)
      else if space3 a b c then TrimLeft_rev s
      else c # b # a # s)"
| "TrimLeft_rev [b, a] =
     (if space1 b then TrimLeft_rev [a] else if space2 a b then [] else [b, a])"
| "TrimLeft_rev [a] = (if space1 a then [] else [a])"
| "TrimLeft_rev [] = []"

definition TrimRight :: "string \<Rightarrow> string" where
  "TrimRight s = rev (TrimLeft_rev (rev s))"

definition TrimSpace :: "string \<Rightarrow> string" where
  "TrimSpace s = TrimRight (TrimLeft s)"

subsection \<open>Formatting an integer (the verb \<open>%d\<close>)\<close>

fun digits :: "nat \<Rightarrow> string" where
  "digits n =
     (if n < 10 then [''0123456789'' ! n]
      else digits (n div 10) @ [''0123456789'' ! (n mod 10)])"

definition itoa :: "int \<Rightarrow> string" where
  "itoa i = (if i < 0 then CHR ''-'' # digits (nat (- i)) else digits (nat i))"

subsection \<open>HTTP requests and responses\<close>

text \<open>
  \<open>http.Header\<close> is a map from a header's canonical name to its values. The names the
  program uses (\<open>Authorization\<close>, \<open>X-Docker-Token\<close>, \<open>X-Docker-Endpoints\<close>,
  \<open>X-Docker-Size\<close>) are in canonical form already, so \<open>Get\<close> and \<open>Set\<close> use the name as
  it is. \<open>Get\<close> is the first value of the header, and the empty string when the header
  is absent or has no value; \<open>h[k]\<close> is all its values, nil when absent; \<open>Set\<close>
  replaces them by one value.
\<close>

type_synonym Header = "string \<rightharpoonup> string list"

definition Header_Get :: "Header \<Rightarrow> string \<Rightarrow> string" where
  "Header_Get h k = (case h k of None \<Rightarrow> [] | Some [] \<Rightarrow> [] | Some (v # vs) \<Rightarrow> v)"

definition Header_index :: "Header \<Rightarrow> string \<Rightarrow> string list" where
  "Header_index h k = (case h k of None \<Rightarrow> [] | Some vs \<Rightarrow> vs)"

definition Header_Set :: "Header \<Rightarrow> string \<Rightarrow> string \<Rightarrow> Header" where
  "Header_Set h k v = h(k \<mapsto> [v])"

text \<open>
  A request, as far as the program uses it. \<open>URL\<close> is the parsed URL, kept as the
  string that formatting it with \<open>%s\<close> gives.
\<close>

record Request =
  Method :: string
  URL :: string
  ReqHeader :: Header

text \<open>
  A response body is a stream; what the program does with it is read it to the end
  (\<open>ioutil.ReadAll\<close>, which returns the bytes read and possibly an error) or hand it
  to the extraction of the layer.
\<close>

datatype Body = Body string "string option"

fun ReadAll :: "Body \<Rightarrow> string \<times> string option" where
  "ReadAll (Body b e) = (b, e)"

record Response =
  StatusCode :: int
  ResHeader :: Header
  ResBody :: Body

record RepoData =
  Tokens :: "string list"
  Endpoints :: "string list"

subsection \<open>Docker's layer metadata and the image manifest\<close>

text \<open>
  \<open>runconfig.Config\<close> is Docker's; of its fields the command and the entry point
  are kept, the others are the record's extension.
\<close>

record Config =
  Cmd :: "string list"
  Entrypoint :: "string list"

record DockerImageData =
  ID :: string
  Parent :: string
  Comment :: string
  Created :: string
  Container :: string
  DockerVersion :: string
  Author :: string
  Config :: "Config option"
  Architecture :: string
  OS :: string
  Checksum :: string

text \<open>
  The manifest types are those of \<open>appc/spec/schema\<close>: an \<open>ACName\<close>, a \<open>SemVer\<close>
  and a \<open>Hash\<close> are each kept as a string, the value their constructor returned.
\<close>

type_synonym ACName = string
type_synonym SemVer = string
type_synonym Hash = string

record Label =
  Label_Name :: ACName
  Label_Value :: string

record App =
  Exec :: "string list"
  User :: string
  Group :: string

record Dependency =
  Dependency_App :: ACName
  ImageID :: Hash

record ImageManifest =
  ACKind :: string
  ACVersion :: SemVer
  Name :: ACName
  Labels :: "Label list"
  App :: "App option"
  Dependencies :: "Dependency list"

subsection \<open>Files and archive entries\<close>

text \<open>
  \<open>os.FileMode\<close> is a 32-bit mask; the constants are those of package \<open>os\<close>.
  \<open>ModeType\<close> is the mask of the release the program was written for (Go 1.4); it
  does not include \<open>ModeCharDevice\<close>.
\<close>

type_synonym FileMode = "32 word"

definition ModeDir :: FileMode where "ModeDir = 0x80000000"
definition ModeSymlink :: FileMode where "ModeSymlink = 0x08000000"
definition ModeDevice :: FileMode where "ModeDevice = 0x04000000"
definition ModeNamedPipe :: FileMode where "ModeNamedPipe = 0x02000000"
definition ModeSocket :: FileMode where "ModeSocket = 0x01000000"
definition ModeCharDevice :: FileMode where "ModeCharDevice = 0x00200000"

definition ModeType :: FileMode where
  "ModeType = ModeDir OR ModeSymlink OR ModeNamedPipe OR ModeSocket OR ModeDevice"

text \<open>
  What \<open>os.FileInfo\<close> tells about a file: its base name, size and mode, and (through
  \<open>Sys()\<close>) its inode number.
\<close>

record FileInfo =
  fi_Name :: string
  fi_Size :: int
  fi_Mode :: FileMode
  fi_Ino :: "64 word"

datatype Typeflag =
  TypeReg | TypeLink | TypeSymlink | TypeChar | TypeBlock | TypeDir | TypeFifo

text \<open>A \<open>tar.Header\<close>, with the fields the walk reads or writes.\<close>

record TarHeader =
  hdr_Name :: string
  hdr_Size :: int
  hdr_Typeflag :: Typeflag
  hdr_Linkname :: string

text \<open>
  One call of the walk function: the path and the \<open>FileInfo\<close> that \<open>filepath.Walk\<close>
  passes, the error it passes, and what the file system answers for this path when
  the walk function asks: the result of \<open>os.Readlink\<close> (the target of a link) and of
  \<open>os.Open\<close> (a reader, kept as the file's content).
\<close>

record visit =
  v_path :: string
  v_info :: FileInfo
  v_err :: "string option"
  v_Readlink :: "string + string"
  v_Open :: "string + string"

text \<open>
  One call of \<open>AddFile\<close>: the path, the header, and the reader (\<open>None\<close> for nil).
\<close>

record archive_entry =
  e_path :: string
  e_hdr :: TarHeader
  e_reader :: "string option"

subsection \<open>The libraries and the operating system\<close>

text \<open>
  The library functions the program calls whose result depends on their arguments
  only. Their code is not the program's, so each is a parameter; a Go error is kept
  as its message.
\<close>

record lib =
  url_Parse :: "string \<Rightarrow> string + string"
  Atoi :: "string \<Rightarrow> string + int"
  Unmarshal_string :: "string \<Rightarrow> string + string"
  Unmarshal_strings :: "string \<Rightarrow> string + string list"
  Unmarshal_DockerImageData :: "string \<Rightarrow> string + DockerImageData"
  Marshal :: "ImageManifest \<Rightarrow> string + string"
  UnmarshalJSON :: "string \<Rightarrow> string + ImageManifest"
  NewACName :: "string \<Rightarrow> string + ACName"
  NewSemVer :: "string \<Rightarrow> string + SemVer"
  NewHash :: "string \<Rightarrow> string + Hash"
  filepath_Rel :: "string \<Rightarrow> string \<Rightarrow> string + string"
  filepath_Join :: "string \<Rightarrow> string \<Rightarrow> string"

text \<open>
  The calls that act on the world outside the program (the network, the file system,
  the content store, the standard streams): each takes the state of the world \<open>'w\<close>
  and returns the new one. Calls that only read return no new state. Closing a
  stream or a file is not a change of the world here. \<open>path_exists\<close> is not called by
  the program: it is what an observer of the file system sees.
\<close>

record 'w sys =
  client_Do :: "Request \<Rightarrow> 'w \<Rightarrow> (string + Response) \<times> 'w"
  Stdout :: "string \<Rightarrow> 'w \<Rightarrow> 'w"
  Stderr :: "string \<Rightarrow> 'w \<Rightarrow> 'w"
  TempDir :: "string \<Rightarrow> string \<Rightarrow> 'w \<Rightarrow> (string + string) \<times> 'w"
  RemoveAll :: "string \<Rightarrow> 'w \<Rightarrow> 'w"
  MkdirAll :: "string \<Rightarrow> 'w \<Rightarrow> string option \<times> 'w"
  Untar :: "Body \<Rightarrow> string \<Rightarrow> 'w \<Rightarrow> string option \<times> 'w"
  Create :: "string \<Rightarrow> 'w \<Rightarrow> string option \<times> 'w"
  File_Write :: "string \<Rightarrow> string \<Rightarrow> 'w \<Rightarrow> 'w"
  File_Sync :: "string \<Rightarrow> 'w \<Rightarrow> 'w"
  OpenFile :: "string \<Rightarrow> 'w \<Rightarrow> string option \<times> 'w"
  ValidateLayout :: "string \<Rightarrow> 'w \<Rightarrow> string option"
  ReadFile :: "string \<Rightarrow> 'w \<Rightarrow> string + string"
  Walk :: "string \<Rightarrow> 'w \<Rightarrow> visit list"
  iw_AddFile :: "string \<Rightarrow> archive_entry \<Rightarrow> 'w \<Rightarrow> string option \<times> 'w"
  iw_Close :: "string \<Rightarrow> ImageManifest \<Rightarrow> 'w \<Rightarrow> string option \<times> 'w"
  Open :: "string \<Rightarrow> 'w \<Rightarrow> string option"
  WriteACI :: "string \<Rightarrow> string \<Rightarrow> 'w \<Rightarrow> (string + string) \<times> 'w"
  path_exists :: "'w \<Rightarrow> string \<Rightarrow> bool"

text \<open>Indexing a slice panics out of range.\<close>

definition index :: "'a list \<Rightarrow> nat \<Rightarrow> error + 'a" where
  "index xs i = (if i < length xs then Inr (xs ! i) else Inl (Panic ''index out of range''))"

definition nil_dereference :: error where
  "nil_dereference = Panic ''invalid memory address or nil pointer dereference''"

subsection \<open>The registry client\<close>

text \<open>\<open>http.NewRequest\<close> with a nil body: it fails when the URL does not parse.\<close>

definition NewRequest :: "lib \<Rightarrow> string \<Rightarrow> string \<Rightarrow> string + Request" where
  "NewRequest L method urlStr =
     (case url_Parse L urlStr of
        Inl e \<Rightarrow> Inl e
      | Inr u \<Rightarrow> Inr \<lparr>Method = method, URL = u, ReqHeader = Map.empty\<rparr>)"

text \<open>
  \<open>makeEndpointsList\<close>: two nested loops that append to \<open>endpoints\<close>, which starts
  nil.
\<close>

definition makeEndpointsList :: "string list \<Rightarrow> string list" where
  "makeEndpointsList headers =
     foldl (\<lambda>endpoints ep.
              foldl (\<lambda>endpoints endpointEl.
                       endpoints @ [''https://'' @ TrimSpace endpointEl @ ''/v1/''])
                    endpoints (Split ep CHR '',''))
           [] headers"

definition setAuthToken :: "Request \<Rightarrow> string list \<Rightarrow> Request" where
  "setAuthToken req token =
     (if Header_Get (ReqHeader req) ''Authorization'' = ''''
      then req\<lparr>ReqHeader :=
             Header_Set (ReqHeader req) ''Authorization'' (''Token '' @ Join token '','')\<rparr>
      else req)"

definition GetRepoData ::
  "lib \<Rightarrow> 'w sys \<Rightarrow> string \<Rightarrow> string \<Rightarrow> 'w \<Rightarrow> (error + RepoData) \<times> 'w" where
  "GetRepoData L S indexURL remote w =
     (let repositoryURL =
            ''https:/'' @ ''/'' @ indexURL @ ''/v1/'' @ ''repositories'' @ ''/'' @ remote
              @ ''/images''
      in case NewRequest L ''GET'' repositoryURL of
           Inl e \<Rightarrow> (Inl (Error e), w)
         | Inr req0 \<Rightarrow>
             (let req = req0\<lparr>ReqHeader := Header_Set (ReqHeader req0) ''X-Docker-Token'' ''true''\<rparr>
              in case client_Do S req w of
                   (Inl e, w') \<Rightarrow> (Inl (Error e), w')
                 | (Inr res, w') \<Rightarrow>
                     if StatusCode res \<noteq> 200
                     then (Inl (Error (''HTTP code: '' @ itoa (StatusCode res) @ '', URL: ''
                                        @ URL req)), w')
                     else
                       (let tokens =
                              (if Header_Get (ResHeader res) ''X-Docker-Token'' \<noteq> ''''
                               then Header_index (ResHeader res) ''X-Docker-Token''
                               else []);
                            endpoints =
                              (if Header_Get (ResHeader res) ''X-Docker-Endpoints'' \<noteq> ''''
                               then makeEndpointsList
                                      (Header_index (ResHeader res) ''X-Docker-Endpoints'')
                               else [] @ [indexURL])
                        in (Inr \<lparr>Tokens = tokens, Endpoints = endpoints\<rparr>, w'))))"

definition GetRemoteImageJSON ::
  "lib \<Rightarrow> 'w sys \<Rightarrow> string \<Rightarrow> string \<Rightarrow> string list \<Rightarrow> 'w
     \<Rightarrow> (error + string \<times> int) \<times> 'w" where
  "GetRemoteImageJSON L S imgID registry token w =
     (case NewRequest L ''GET'' (registry @ ''images/'' @ imgID @ ''/json'') of
        Inl e \<Rightarrow> (Inl (Error e), w)
      | Inr req0 \<Rightarrow>
          (let req = setAuthToken req0 token
           in case client_Do S req w of
                (Inl e, w') \<Rightarrow> (Inl (Error e), w')
              | (Inr res, w') \<Rightarrow>
                  if StatusCode res \<noteq> 200
                  then (Inl (Error (''HTTP code: '' @ itoa (StatusCode res) @ '', URL: ''
                                     @ URL req)), w')
                  else
                    (let hdr = Header_Get (ResHeader res) ''X-Docker-Size''
                     in case (if hdr \<noteq> '''' then Atoi L hdr else Inr (- 1)) of
                          Inl e \<Rightarrow> (Inl (Error e), w')
                        | Inr imageSize \<Rightarrow>
                            (case ReadAll (ResBody res) of
                               (jsonString, Some e) \<Rightarrow>
                                 (Inl (Error (''Failed to read downloaded json: '' @ e
                                               @ '' ('' @ jsonString @ '')'')), w')
                             | (jsonString, None) \<Rightarrow>
                                 (Inr (jsonString, imageSize), w')))))"

text \<open>
  \<open>GetRemoteLayer\<close> returns the open body. The size it is given is not used.
\<close>

definition GetRemoteLayer ::
  "lib \<Rightarrow> 'w sys \<Rightarrow> string \<Rightarrow> string \<Rightarrow> string list \<Rightarrow> int \<Rightarrow> 'w
     \<Rightarrow> (error + Body) \<times> 'w" where
  "GetRemoteLayer L S imgID registry token imgSize w =
     (case NewRequest L ''GET'' (registry @ ''images/'' @ imgID @ ''/layer'') of
        Inl e \<Rightarrow> (Inl (Error e), w)
      | Inr req0 \<Rightarrow>
          (let req = setAuthToken req0 token;
               w1 = Stdout S (imgID @ '': Downloading layer'' @ [CHR 0x0A]) w
           in case client_Do S req w1 of
                (Inl e, w') \<Rightarrow> (Inl (Error e), w')
              | (Inr res, w') \<Rightarrow>
                  if StatusCode res \<noteq> 200
                  then (Inl (Error (''HTTP code: '' @ itoa (StatusCode res) @ ''. URL: ''
                                     @ URL req)), w')
                  else (Inr (ResBody res), w')))"

text \<open>
  In \<open>GetImageIDFromTag\<close> the message for a request that could not be built reads
  \<open>req.URL\<close> of the nil request that \<open>http.NewRequest\<close> returned with its error.
\<close>

definition GetImageIDFromTag ::
  "lib \<Rightarrow> 'w sys \<Rightarrow> string \<Rightarrow> string \<Rightarrow> string \<Rightarrow> string list \<Rightarrow> 'w
     \<Rightarrow> (error + string) \<times> 'w" where
  "GetImageIDFromTag L S registry appName tag token w =
     (case NewRequest L ''GET'' (registry @ ''repositories/'' @ appName @ ''/tags/'' @ tag) of
        Inl e \<Rightarrow> (Inl nil_dereference, w)
      | Inr req0 \<Rightarrow>
          (let req = setAuthToken req0 token
           in case client_Do S req w of
                (Inl e, w') \<Rightarrow>
                  (Inl (Error (''Failed to get Image ID: '' @ e @ '', URL: '' @ URL req)), w')
              | (Inr res, w') \<Rightarrow>
                  if StatusCode res \<noteq> 200
                  then (Inl (Error (''HTTP code: '' @ itoa (StatusCode res) @ ''. URL: ''
                                     @ URL req)), w')
                  else
                    (case ReadAll (ResBody res) of
                       (jsonString, Some e) \<Rightarrow> (Inl (Error e), w')
                     | (jsonString, None) \<Rightarrow>
                         (case Unmarshal_string L jsonString of
                            Inl e \<Rightarrow> (Inl (Error (''Error unmarshaling: '' @ e)), w')
                          | Inr imageID \<Rightarrow> (Inr imageID, w')))))"

definition GetAncestry ::
  "lib \<Rightarrow> 'w sys \<Rightarrow> string \<Rightarrow> string \<Rightarrow> string list \<Rightarrow> 'w
     \<Rightarrow> (error + string list) \<times> 'w" where
  "GetAncestry L S imgID registry token w =
     (case NewRequest L ''GET'' (registry @ ''images/'' @ imgID @ ''/ancestry'') of
        Inl e \<Rightarrow> (Inl (Error e), w)
      | Inr req0 \<Rightarrow>
          (let req = setAuthToken req0 token
           in case client_Do S req w of
                (Inl e, w') \<Rightarrow> (Inl (Error e), w')
              | (Inr res, w') \<Rightarrow>
                  if StatusCode res \<noteq> 200
                  then (Inl (Error (''HTTP code: '' @ itoa (StatusCode res) @ ''. URL: ''
                                     @ URL req)), w')
                  else
                    (case ReadAll (ResBody res) of
                       (jsonString, Some e) \<Rightarrow>
                         (Inl (Error (''Failed to read downloaded json: '' @ e
                                       @ '' ('' @ jsonString @ '')'')), w')
                     | (jsonString, None) \<Rightarrow>
                         (case Unmarshal_strings L jsonString of
                            Inl e \<Rightarrow> (Inl (Error (''Error unmarshaling: '' @ e)), w')
                          | Inr ancestry \<Rightarrow> (Inr ancestry, w')))))"

subsection \<open>The manifest of a layer\<close>

text \<open>
  \<open>GenerateManifest\<close>. The constructors of \<open>appc/spec/schema/types\<close> return a
  pointer and an error; where the program drops the error and dereferences the
  pointer (\<open>acVersion\<close>, \<open>layer\<close>, \<open>version\<close>), a failed constructor is a nil
  dereference.
\<close>

definition GenerateManifest ::
  "lib \<Rightarrow> DockerImageData \<Rightarrow> DockerURL \<Rightarrow> string \<Rightarrow> error + ImageManifest" where
  "GenerateManifest L layerData dockerURL parentImageID =
     (let dockerConfig = Config layerData;
          appURL = IndexURL dockerURL @ ''/'' @ ImageName dockerURL
      in case NewACName L appURL of
           Inl e \<Rightarrow> Inl (Error e)
         | Inr name \<Rightarrow>
       (case NewSemVer L schemaVersion of
           Inl e \<Rightarrow> Inl nil_dereference
         | Inr acVersion \<Rightarrow>
       (case NewACName L ''layer'' of
           Inl e \<Rightarrow> Inl nil_dereference
         | Inr layer \<Rightarrow>
       (case NewACName L ''version'' of
           Inl e \<Rightarrow> Inl nil_dereference
         | Inr version \<Rightarrow>
       (let labels = [] @ [\<lparr>Label_Name = layer, Label_Value = ID layerData\<rparr>]
                        @ [\<lparr>Label_Name = version, Label_Value = Tag dockerURL\<rparr>];
            app = (case dockerConfig of
                     None \<Rightarrow> None
                   | Some c \<Rightarrow>
                       if length (Cmd c) > 0
                       then Some \<lparr>Exec = Cmd c, User = ''0'', Group = ''0''\<rparr>
                       else None);
            genManifest = \<lparr>ACKind = ''ImageManifest'', ACVersion = acVersion, Name = name,
                           Labels = labels, App = app, Dependencies = []\<rparr>
        in if parentImageID \<noteq> ''''
           then (case NewHash L parentImageID of
                   Inl e \<Rightarrow> Inl (Error e)
                 | Inr hash \<Rightarrow>
                     Inr (genManifest\<lparr>Dependencies :=
                            [] @ [\<lparr>Dependency_App = name, ImageID = hash\<rparr>]\<rparr>))
           else Inr genManifest)))))"

subsection \<open>The archive builder\<close>

definition ManifestFile :: string where
  "ManifestFile = ''manifest''"

text \<open>
  Modelled from the spec: \<open>tar.FileInfoHeader\<close> (Go's package \<open>archive/tar\<close>) is not
  in the repository. The header it builds has the type of the entry (a regular file
  with its size, a directory, a symbolic link with the link target it is given, a
  character or block device, a named pipe); a socket has no header, which is the
  error the walk panics on.
\<close>

definition FileInfoHeader :: "FileInfo \<Rightarrow> string \<Rightarrow> string + TarHeader" where
  "FileInfoHeader fi link =
     (let fm = fi_Mode fi;
          h = \<lparr>hdr_Name = fi_Name fi, hdr_Size = 0, hdr_Typeflag = TypeReg,
               hdr_Linkname = ''''\<rparr>
      in if fm AND ModeType = 0
           then Inr (h\<lparr>hdr_Typeflag := TypeReg, hdr_Size := fi_Size fi\<rparr>)
         else if fm AND ModeDir \<noteq> 0
           then Inr (h\<lparr>hdr_Typeflag := TypeDir, hdr_Name := fi_Name fi @ ''/''\<rparr>)
         else if fm AND ModeSymlink \<noteq> 0
           then Inr (h\<lparr>hdr_Typeflag := TypeSymlink, hdr_Linkname := link\<rparr>)
         else if fm AND ModeDevice \<noteq> 0
           then (if fm AND ModeCharDevice \<noteq> 0
                 then Inr (h\<lparr>hdr_Typeflag := TypeChar\<rparr>)
                 else Inr (h\<lparr>hdr_Typeflag := TypeBlock\<rparr>))
         else if fm AND ModeNamedPipe \<noteq> 0
           then Inr (h\<lparr>hdr_Typeflag := TypeFifo\<rparr>)
         else Inl ''archive/tar: sockets not supported'')"

text \<open>
  Modelled from the spec: \<open>tarheader.Populate\<close> (\<open>appc/spec/pkg/tarheader\<close>) is not in
  the repository. With the cache of inode numbers that the walk gives it (``inode to
  file path, used to leverage hard links in the archive''), a file whose inode was
  already observed earlier in the traversal becomes a link entry that references the
  path under which that inode was first seen; otherwise the inode is recorded under
  the entry's name. The key is the inode number.
\<close>

definition Populate ::
  "TarHeader \<Rightarrow> FileInfo \<Rightarrow> (64 word \<rightharpoonup> string) \<Rightarrow> TarHeader \<times> (64 word \<rightharpoonup> string)" where
  "Populate h fi seen =
     (case seen (fi_Ino fi) of
        Some p \<Rightarrow> (h\<lparr>hdr_Linkname := p, hdr_Typeflag := TypeLink\<rparr>, seen)
      | None \<Rightarrow> (h, seen(fi_Ino fi \<mapsto> hdr_Name h)))"

text \<open>
  \<open>buildWalker root aw\<close> is the walk function: a closure over the cache \<open>inos\<close>, which
  starts empty, and the archive writer \<open>aw\<close>. The closure's state is the pair of the
  cache and the writer's state; the writer is any implementation of \<open>AddFile\<close>. The
  switch on \<open>info.Mode() & os.ModeType\<close> has no fall-through: the three device and
  directory cases are empty.
\<close>

definition buildWalker ::
  "lib \<Rightarrow> ('a \<Rightarrow> string \<Rightarrow> TarHeader \<Rightarrow> string option \<Rightarrow> string option \<times> 'a) \<Rightarrow> string
     \<Rightarrow> visit \<Rightarrow> (64 word \<rightharpoonup> string) \<times> 'a
     \<Rightarrow> error option \<times> ((64 word \<rightharpoonup> string) \<times> 'a)" where
  "buildWalker L AddFile root v st =
     (case st of (inos, aw) \<Rightarrow>
      (case v_err v of
         Some e \<Rightarrow> (Some (Error e), st)
       | None \<Rightarrow>
      (case filepath_Rel L root (v_path v) of
         Inl e \<Rightarrow> (Some (Error e), st)
       | Inr relpath \<Rightarrow>
         if relpath = ''.'' then (None, st)
         else if relpath = ManifestFile then (None, st)
         else
           (let t = fi_Mode (v_info v) AND ModeType
            in case (if t = ModeCharDevice then Inr ('''', None)
                     else if t = ModeDevice then Inr ('''', None)
                     else if t = ModeDir then Inr ('''', None)
                     else if t = ModeSymlink
                       then (case v_Readlink v of
                               Inl e \<Rightarrow> Inl e
                             | Inr target \<Rightarrow> Inr (target, None))
                     else (case v_Open v of
                             Inl e \<Rightarrow> Inl e
                           | Inr file \<Rightarrow> Inr ('''', Some file))) of
                 Inl e \<Rightarrow> (Some (Error e), st)
               | Inr (link, r) \<Rightarrow>
                   (case FileInfoHeader (v_info v) link of
                      Inl e \<Rightarrow> (Some (Panic e), st)
                    | Inr hdr0 \<Rightarrow>
                        (case Populate (hdr0\<lparr>hdr_Name := relpath\<rparr>) (v_info v) inos of
                           (hdr1, inos') \<Rightarrow>
                             (let hdr = (if hdr_Typeflag hdr1 = TypeLink
                                         then hdr1\<lparr>hdr_Size := 0\<rparr> else hdr1);
                                  r' = (if hdr_Typeflag hdr1 = TypeLink then None else r)
                              in case AddFile aw relpath hdr r' of
                                   (Some e, aw') \<Rightarrow> (Some (Error e), (inos', aw'))
                                 | (None, aw') \<Rightarrow> (None, (inos', aw')))))))))"

text \<open>
  \<open>filepath.Walk\<close> calls the walk function once for each file it visits, in its
  order, and stops at the first error the function returns.
\<close>

fun Walk_run :: "(visit \<Rightarrow> 's \<Rightarrow> error option \<times> 's) \<Rightarrow> visit list \<Rightarrow> 's \<Rightarrow> error option \<times> 's" where
  "Walk_run f [] st = (None, st)"
| "Walk_run f (v # vs) st =
     (case f v st of
        (Some e, st') \<Rightarrow> (Some e, st')
      | (None, st') \<Rightarrow> Walk_run f vs st')"

text \<open>
  An archive writer that records the calls of \<open>AddFile\<close> in their order; \<open>reject\<close>
  tells which calls fail, with what error.
\<close>

definition record_AddFile ::
  "(archive_entry \<Rightarrow> string option) \<Rightarrow> archive_entry list \<Rightarrow> string \<Rightarrow> TarHeader
     \<Rightarrow> string option \<Rightarrow> string option \<times> archive_entry list" where
  "record_AddFile reject es relpath hdr r =
     (let e = \<lparr>e_path = relpath, e_hdr = hdr, e_reader = r\<rparr>
      in case reject e of Some err \<Rightarrow> (Some err, es) | None \<Rightarrow> (None, es @ [e]))"

text \<open>
  \<open>BuildACI\<close>. The image writer writes to the tar writer over the file \<open>targetACI\<close>,
  so its state is the world's; the walk sees the directory as it is when the walk
  starts.
\<close>

definition BuildACI ::
  "lib \<Rightarrow> 'w sys \<Rightarrow> string \<Rightarrow> string \<Rightarrow> string \<Rightarrow> 'w \<Rightarrow> (error + string) \<times> 'w" where
  "BuildACI L S imageID outDir targetDir w =
     (let targetACI = filepath_Join L outDir (imageID @ ''.aci'')
      in case OpenFile S targetACI w of
           (Some e, w1) \<Rightarrow>
             (Inl (Error (''Unable to open target '' @ targetACI @ '': '' @ e)), w1)
         | (None, w1) \<Rightarrow>
       (case ValidateLayout S targetDir w1 of
           Some e \<Rightarrow> (Inl (Error (''Layout failed validation: '' @ e)), w1)
         | None \<Rightarrow>
       (case ReadFile S (filepath_Join L targetDir ManifestFile) w1 of
           Inl e \<Rightarrow> (Inl (Error (''Unable to read Image Manifest: '' @ e)), w1)
         | Inr b \<Rightarrow>
       (case UnmarshalJSON L b of
           Inl e \<Rightarrow> (Inl (Error (''Unable to load Image Manifest: '' @ e)), w1)
         | Inr im \<Rightarrow>
       (case Walk_run
               (buildWalker L
                  (\<lambda>w relpath hdr r.
                     iw_AddFile S targetACI \<lparr>e_path = relpath, e_hdr = hdr, e_reader = r\<rparr> w)
                  targetDir)
               (Walk S targetDir w1) (Map.empty, w1) of
           (Some (Error e), (inos, w2)) \<Rightarrow> (Inl (Error (''Error walking rootfs: '' @ e)), w2)
         | (Some (Panic p), (inos, w2)) \<Rightarrow> (Inl (Panic p), w2)
         | (None, (inos, w2)) \<Rightarrow>
       (case iw_Close S targetACI im w2 of
           (Some e, w3) \<Rightarrow>
             (Inl (Error (''Unable to close image '' @ targetACI @ '': '' @ e)), w3)
         | (None, w3) \<Rightarrow> (Inr targetACI, w3)))))))"

subsection \<open>The import of one layer\<close>

text \<open>
  An error that a caller formats into a new one with \<open>fmt.Errorf(prefix + "%v", err)\<close>;
  a panic is not an error value and passes through.
\<close>

fun wrap :: "string \<Rightarrow> error \<Rightarrow> error" where
  "wrap p (Error m) = Error (p @ m)"
| "wrap p (Panic m) = Panic m"

text \<open>
  \<open>ImportLayer\<close> is written here in the three parts that its deferred calls delimit.
  \<open>ImportLayer_archive\<close> is what follows \<open>defer f.Close()\<close>: the manifest is written,
  the archive built and handed to the store.
\<close>

definition ImportLayer_archive ::
  "lib \<Rightarrow> 'w sys \<Rightarrow> string \<Rightarrow> string \<Rightarrow> string \<Rightarrow> string \<Rightarrow> string \<Rightarrow> string \<Rightarrow> 'w
     \<Rightarrow> (error + string) \<times> 'w" where
  "ImportLayer_archive L S layerID dataStore tmpDir layerDest f manifestBytes w =
     (let w1 = File_Sync S f (File_Write S f manifestBytes w)
      in case BuildACI L S layerID tmpDir layerDest w1 of
           (Inl e, w2) \<Rightarrow> (Inl (wrap ''Error building ACI: '' e), w2)
         | (Inr aciPath, w2) \<Rightarrow>
       (case Open S aciPath w2 of
           Some e \<Rightarrow> (Inl (Error ''Error opening target aci file''), w2)
         | None \<Rightarrow>
       (case WriteACI S dataStore aciPath w2 of
           (Inl e, w3) \<Rightarrow> (Inl (Error (''Error writing ACI: '' @ e)), w3)
         | (Inr parentImageID, w3) \<Rightarrow> (Inr parentImageID, w3))))"

text \<open>
  \<open>ImportLayer_extract\<close> is what follows \<open>defer layer.Close()\<close>: the layer is
  unpacked, the manifest generated, serialised and its file created.
\<close>

definition ImportLayer_extract ::
  "lib \<Rightarrow> 'w sys \<Rightarrow> string \<Rightarrow> DockerURL \<Rightarrow> string \<Rightarrow> string \<Rightarrow> string \<Rightarrow> DockerImageData
     \<Rightarrow> Body \<Rightarrow> 'w \<Rightarrow> (error + string) \<times> 'w" where
  "ImportLayer_extract L S layerID dockerURL dataStore parentImageID tmpDir layerData layer w =
     (let layerDest = tmpDir @ ''/layer'';
          layerRootfs = layerDest @ ''/rootfs''
      in case Untar S layer layerRootfs w of
           (Some e, w1) \<Rightarrow> (Inl (Error (''Error untaring image: '' @ e)), w1)
         | (None, w1) \<Rightarrow>
       (case GenerateManifest L layerData dockerURL parentImageID of
           Inl e \<Rightarrow> (Inl (wrap ''Error generating the manifest: '' e), w1)
         | Inr manifest \<Rightarrow>
       (case Marshal L manifest of
           Inl e \<Rightarrow> (Inl (Error e), w1)
         | Inr manifestBytes \<Rightarrow>
       (let f = filepath_Join L layerDest ManifestFile
        in case Create S f w1 of
             (Some e, w2) \<Rightarrow> (Inl (Error ''Error creating manifest file''), w2)
           | (None, w2) \<Rightarrow>
               ImportLayer_archive L S layerID dataStore tmpDir layerDest f manifestBytes w2))))"

text \<open>
  \<open>ImportLayer_staged\<close> is what follows \<open>defer os.RemoveAll(tmpDir)\<close>: the staging
  directories are made and the layer's metadata and blob fetched from the first
  endpoint.
\<close>

definition ImportLayer_staged ::
  "lib \<Rightarrow> 'w sys \<Rightarrow> string \<Rightarrow> RepoData \<Rightarrow> DockerURL \<Rightarrow> string \<Rightarrow> string \<Rightarrow> string \<Rightarrow> 'w
     \<Rightarrow> (error + string) \<times> 'w" where
  "ImportLayer_staged L S layerID repoData dockerURL dataStore parentImageID tmpDir w =
     (let layerDest = tmpDir @ ''/layer'';
          layerRootfs = layerDest @ ''/rootfs''
      in case MkdirAll S layerRootfs w of
           (Some e, w1) \<Rightarrow> (Inl (Error (''Error creating dir: '' @ layerRootfs)), w1)
         | (None, w1) \<Rightarrow>
       (case index (Endpoints repoData) 0 of
           Inl p \<Rightarrow> (Inl p, w1)
         | Inr registry \<Rightarrow>
       (case GetRemoteImageJSON L S layerID registry (Tokens repoData) w1 of
           (Inl e, w2) \<Rightarrow> (Inl (wrap ''Error getting image json: '' e), w2)
         | (Inr (jsonString, size'), w2) \<Rightarrow>
       (case Unmarshal_DockerImageData L jsonString of
           Inl e \<Rightarrow> (Inl (Error (''Error unmarshaling layer data: '' @ e)), w2)
         | Inr layerData \<Rightarrow>
       (case index (Endpoints repoData) 0 of
           Inl p \<Rightarrow> (Inl p, w2)
         | Inr registry' \<Rightarrow>
       (case GetRemoteLayer L S layerID registry' (Tokens repoData) size' w2 of
           (Inl e, w3) \<Rightarrow> (Inl (wrap ''Error getting the remote layer: '' e), w3)
         | (Inr layer, w3) \<Rightarrow>
             ImportLayer_extract L S layerID dockerURL dataStore parentImageID tmpDir
               layerData layer w3))))))"

text \<open>
  \<open>ImportLayer\<close>: the temporary directory is made, its removal deferred, and the
  deferred call runs when the rest returns, whatever it returns. The error of
  \<open>os.RemoveAll\<close> is dropped by the program. The store is the one value
  \<open>cas.NewStore(rocketDir)\<close>, kept as its directory.
\<close>

definition ImportLayer ::
  "lib \<Rightarrow> 'w sys \<Rightarrow> string \<Rightarrow> RepoData \<Rightarrow> DockerURL \<Rightarrow> string \<Rightarrow> string \<Rightarrow> 'w
     \<Rightarrow> (error + string) \<times> 'w" where
  "ImportLayer L S layerID repoData dockerURL dataStore parentImageID w =
     (case TempDir S '''' ''docker2aci-'' w of
        (Inl e, w0) \<Rightarrow> (Inl (Error (''Error creating dir: '' @ e)), w0)
      | (Inr tmpDir, w0) \<Rightarrow>
          (case ImportLayer_staged L S layerID repoData dockerURL dataStore parentImageID
                  tmpDir w0 of
             (r, w1) \<Rightarrow> (r, RemoveAll S tmpDir w1)))"

subsection \<open>The conversion pipeline\<close>

text \<open>
  What \<open>runDocker2ACI\<close> does with an error: it prints it on the standard error
  stream and returns it. A panic is not handled.
\<close>

fun report :: "'w sys \<Rightarrow> string \<Rightarrow> error \<Rightarrow> 'w \<Rightarrow> 'w" where
  "report S p (Error m) w = Stderr S (p @ m @ [CHR 0x0A]) w"
| "report S p (Panic m) w = w"

text \<open>
  The loop \<open>for i := len(ancestry) - 1; i >= 0; i--\<close>. The counter of the model is
  \<open>i + 1\<close>, the number of layers still to import, so the loop ends at \<open>0\<close>.
\<close>

primrec import_loop ::
  "lib \<Rightarrow> 'w sys \<Rightarrow> RepoData \<Rightarrow> DockerURL \<Rightarrow> string \<Rightarrow> string \<Rightarrow> string list \<Rightarrow> nat
     \<Rightarrow> string \<Rightarrow> string \<Rightarrow> 'w \<Rightarrow> (error + string) \<times> 'w" where
  "import_loop L S repoData dockerURL ds appImageID ancestry 0
     rocketAppImageID parentImageID w = (Inr rocketAppImageID, w)"
| "import_loop L S repoData dockerURL ds appImageID ancestry (Suc i)
     rocketAppImageID parentImageID w =
     (case index ancestry i of
        Inl p \<Rightarrow> (Inl p, w)
      | Inr layerID \<Rightarrow>
          (case ImportLayer L S layerID repoData dockerURL ds parentImageID w of
             (Inl e, w') \<Rightarrow> (Inl e, report S ''Error importing image: '' e w')
           | (Inr rocketLayerID, w') \<Rightarrow>
               import_loop L S repoData dockerURL ds appImageID ancestry i
                 (if layerID = appImageID then rocketLayerID else rocketAppImageID)
                 rocketLayerID w'))"

definition runDocker2ACI :: "lib \<Rightarrow> 'w sys \<Rightarrow> string \<Rightarrow> 'w \<Rightarrow> error option \<times> 'w" where
  "runDocker2ACI L S arg w =
     (let dockerURL = parseArgument arg
      in case GetRepoData L S (IndexURL dockerURL) (ImageName dockerURL) w of
           (Inl e, w1) \<Rightarrow> (Some e, report S ''Error getting image data: '' e w1)
         | (Inr repoData, w1) \<Rightarrow>
       (case index (Endpoints repoData) 0 of
           Inl p \<Rightarrow> (Some p, w1)
         | Inr registry \<Rightarrow>
       (case GetImageIDFromTag L S registry (ImageName dockerURL) (Tag dockerURL)
               (Tokens repoData) w1 of
           (Inl e, w2) \<Rightarrow>
             (Some e,
              report S (''Error getting ImageID from tag '' @ Tag dockerURL @ '': '') e w2)
         | (Inr appImageID, w2) \<Rightarrow>
       (case index (Endpoints repoData) 0 of
           Inl p \<Rightarrow> (Some p, w2)
         | Inr registry' \<Rightarrow>
       (case GetAncestry L S appImageID registry' (Tokens repoData) w2 of
           (Inl e, w3) \<Rightarrow> (Some e, report S ''Error getting ancestry: '' e w3)
         | (Inr ancestry, w3) \<Rightarrow>
       (case import_loop L S repoData dockerURL rocketDir appImageID ancestry
               (length ancestry) '''' '''' w3 of
           (Inl e, w4) \<Rightarrow> (Some e, w4)
         | (Inr rocketAppImageID, w4) \<Rightarrow>
             (None, Stdout S (rocketAppImageID @ [CHR 0x0A]) w4)))))))"

text \<open>
  The same loop with a record of the calls of \<open>ImportLayer\<close> it makes: for each call,
  in order, the layer, the parent identifier passed and what the call returned.
\<close>

record import_call =
  call_layer :: string
  call_parent :: string
  call_result :: "error + string"

primrec import_loop_log ::
  "lib \<Rightarrow> 'w sys \<Rightarrow> RepoData \<Rightarrow> DockerURL \<Rightarrow> string \<Rightarrow> string \<Rightarrow> string list \<Rightarrow> nat
     \<Rightarrow> string \<Rightarrow> string \<Rightarrow> 'w \<Rightarrow> ((error + string) \<times> 'w) \<times> import_call list" where
  "import_loop_log L S repoData dockerURL ds appImageID ancestry 0
     rocketAppImageID parentImageID w = ((Inr rocketAppImageID, w), [])"
| "import_loop_log L S repoData dockerURL ds appImageID ancestry (Suc i)
     rocketAppImageID parentImageID w =
     (case index ancestry i of
        Inl p \<Rightarrow> ((Inl p, w), [])
      | Inr layerID \<Rightarrow>
          (case ImportLayer L S layerID repoData dockerURL ds parentImageID w of
             (Inl e, w') \<Rightarrow>
               ((Inl e, report S ''Error importing image: '' e w'),
                [\<lparr>call_layer = layerID, call_parent = parentImageID, call_result = Inl e\<rparr>])
           | (Inr rocketLayerID, w') \<Rightarrow>
               (case import_loop_log L S repoData dockerURL ds appImageID ancestry i
                       (if layerID = appImageID then rocketLayerID else rocketAppImageID)
                       rocketLayerID w' of
                  (out, calls) \<Rightarrow>
                    (out,
                     \<lparr>call_layer = layerID, call_parent = parentImageID,
                      call_result = Inr rocketLayerID\<rparr> # calls))))"

subsection \<open>A small world to run the program in\<close>

text \<open>
  The libraries, reduced to what a run needs: every name, version and hash is
  accepted as it is, the JSON of a tag is the image identifier itself, the JSON of an
  ancestry is the identifiers separated by commas, and the metadata of a layer has the
  body of the response as the layer's identifier and \<open>/bin/sh\<close> as its command.
\<close>

definition demo_lib :: lib where
  "demo_lib =
     \<lparr>url_Parse = Inr,
      Atoi = (\<lambda>s. Inl (''strconv.ParseInt: parsing '' @ s @ '': invalid syntax'')),
      Unmarshal_string = Inr,
      Unmarshal_strings = (\<lambda>s. Inr (Split s CHR '','')),
      Unmarshal_DockerImageData =
        (\<lambda>s. Inr \<lparr>ID = s, Parent = '''', Comment = '''', Created = '''', Container = '''',
                   DockerVersion = '''', Author = '''',
                   Config = Some \<lparr>Cmd = [''/bin/sh''], Entrypoint = []\<rparr>,
                   Architecture = ''amd64'', OS = ''linux'', Checksum = ''''\<rparr>),
      Marshal = (\<lambda>m. Inr (Name m)),
      UnmarshalJSON =
        (\<lambda>s. Inr \<lparr>ACKind = ''ImageManifest'', ACVersion = ''0.1.1'', Name = s, Labels = [],
                   App = None, Dependencies = []\<rparr>),
      NewACName = Inr,
      NewSemVer = Inr,
      NewHash = Inr,
      filepath_Rel =
        (\<lambda>root p. if p = root then Inr ''.''
                   else if prefix (root @ ''/'') p then Inr (drop (length root + 1) p)
                   else Inl ''Rel: no relative path''),
      filepath_Join = (\<lambda>a b. a @ ''/'' @ b)\<rparr>"

text \<open>
  A directory tree as a walk finds it under \<open>root\<close>: the root, the manifest, and a
  root file system with a shell, a second name of the same file (one inode), and a
  symbolic link.
\<close>

definition demo_visits :: "string \<Rightarrow> visit list" where
  "demo_visits root =
     [\<lparr>v_path = root,
       v_info = \<lparr>fi_Name = ''layer'', fi_Size = 4096, fi_Mode = 0x800001ED, fi_Ino = 1\<rparr>,
       v_err = None, v_Readlink = Inl ''invalid argument'', v_Open = Inr ''''\<rparr>,
      \<lparr>v_path = root @ ''/manifest'',
       v_info = \<lparr>fi_Name = ''manifest'', fi_Size = 2, fi_Mode = 0x1A4, fi_Ino = 2\<rparr>,
       v_err = None, v_Readlink = Inl ''invalid argument'', v_Open = Inr ''{}''\<rparr>,
      \<lparr>v_path = root @ ''/rootfs'',
       v_info = \<lparr>fi_Name = ''rootfs'', fi_Size = 4096, fi_Mode = 0x800001ED, fi_Ino = 3\<rparr>,
       v_err = None, v_Readlink = Inl ''invalid argument'', v_Open = Inr ''''\<rparr>,
      \<lparr>v_path = root @ ''/rootfs/ash'',
       v_info = \<lparr>fi_Name = ''ash'', fi_Size = 5, fi_Mode = 0x1ED, fi_Ino = 7\<rparr>,
       v_err = None, v_Readlink = Inl ''invalid argument'', v_Open = Inr ''shell''\<rparr>,
      \<lparr>v_path = root @ ''/rootfs/sh'',
       v_info = \<lparr>fi_Name = ''sh'', fi_Size = 5, fi_Mode = 0x1ED, fi_Ino = 7\<rparr>,
       v_err = None, v_Readlink = Inl ''invalid argument'', v_Open = Inr ''shell''\<rparr>,
      \<lparr>v_path = root @ ''/rootfs/shell'',
       v_info = \<lparr>fi_Name = ''shell'', fi_Size = 2, fi_Mode = 0x080001FF, fi_Ino = 8\<rparr>,
       v_err = None, v_Readlink = Inr ''sh'', v_Open = Inr ''shell''\<rparr>]"

text \<open>
  The operating system, with the world as the list of the paths that exist: a
  temporary directory is always \<open>/tmp/docker2aci-0\<close>, removing a directory removes it
  and what is under it, the store's identifier for an archive is \<open>sha512-\<close> and the
  archive's path, and the network answers as \<open>respond\<close> says.
\<close>

definition demo_sys :: "(Request \<Rightarrow> string + Response) \<Rightarrow> string list sys" where
  "demo_sys respond =
     \<lparr>client_Do = (\<lambda>req w. (respond req, w)),
      Stdout = (\<lambda>s w. w),
      Stderr = (\<lambda>s w. w),
      TempDir = (\<lambda>dir pre w. (Inr (''/tmp/'' @ pre @ ''0''), (''/tmp/'' @ pre @ ''0'') # w)),
      RemoveAll = (\<lambda>p w. filter (\<lambda>q. \<not> (q = p \<or> prefix (p @ ''/'') q)) w),
      MkdirAll = (\<lambda>p w. (None, p # w)),
      Untar = (\<lambda>b dst w. (None, (dst @ ''/sh'') # w)),
      Create = (\<lambda>p w. (None, p # w)),
      File_Write = (\<lambda>p b w. w),
      File_Sync = (\<lambda>p w. w),
      OpenFile = (\<lambda>p w. (None, p # w)),
      ValidateLayout = (\<lambda>p w. None),
      ReadFile = (\<lambda>p w. Inr ''{}''),
      Walk = (\<lambda>dir w. demo_visits dir),
      iw_AddFile = (\<lambda>t e w. (None, w)),
      iw_Close = (\<lambda>t m w. (None, w)),
      Open = (\<lambda>p w. None),
      WriteACI = (\<lambda>store p w. (Inr (''sha512-'' @ p), w)),
      path_exists = (\<lambda>w p. p \<in> set w)\<rparr>"

definition ok_response :: "Header \<Rightarrow> string \<Rightarrow> string + Response" where
  "ok_response h b = Inr \<lparr>StatusCode = 200, ResHeader = h, ResBody = Body b None\<rparr>"

text \<open>
  A registry with the image \<open>app\<close> at the index \<open>r.io\<close>: the tag \<open>latest\<close> is the layer
  \<open>l2\<close>, whose parent is the base layer \<open>l1\<close>. The URLs of \<open>missing\<close> answer 404, as
  every other URL does.
\<close>

definition demo_registry :: "string list \<Rightarrow> Request \<Rightarrow> string + Response" where
  "demo_registry missing req =
     (let u = URL req
      in if u \<in> set missing
           then Inr \<lparr>StatusCode = 404, ResHeader = Map.empty, ResBody = Body '''' None\<rparr>
         else if u = ''https://r.io/v1/repositories/app/images''
           then ok_response [''X-Docker-Token'' \<mapsto> [''t1''],
                             ''X-Docker-Endpoints'' \<mapsto> [''reg.r.io, m.r.io'']] ''[]''
         else if u = ''https://reg.r.io/v1/repositories/app/tags/latest''
           then ok_response Map.empty ''l2''
         else if u = ''https://reg.r.io/v1/images/l2/ancestry''
           then ok_response Map.empty ''l2,l1''
         else if u = ''https://reg.r.io/v1/images/l1/json''
           then ok_response Map.empty ''l1''
         else if u = ''https://reg.r.io/v1/images/l2/json''
           then ok_response Map.empty ''l2''
         else if u = ''https://reg.r.io/v1/images/l1/layer''
           then ok_response Map.empty ''tar1''
         else if u = ''https://reg.r.io/v1/images/l2/layer''
           then ok_response Map.empty ''tar2''
         else Inr \<lparr>StatusCode = 404, ResHeader = Map.empty, ResBody = Body '''' None\<rparr>)"

text \<open>
  An index that answers with an endpoints header of one empty value, and a request
  that carries an \<open>Authorization\<close> header of one empty value.
\<close>

definition empty_endpoints_registry :: "Request \<Rightarrow> string + Response" where
  "empty_endpoints_registry req = ok_response [''X-Docker-Endpoints'' \<mapsto> ['''']] ''[]''"


definition demo_layerData :: "string \<Rightarrow> string list \<Rightarrow> DockerImageData" where
  "demo_layerData i ep =
     \<lparr>ID = i, Parent = '''', Comment = '''', Created = '''', Container = '''',
      DockerVersion = '''', Author = '''',
      Config = Some \<lparr>Cmd = [''/bin/sh''], Entrypoint = ep\<rparr>,
      Architecture = ''amd64'', OS = ''linux'', Checksum = ''''\<rparr>"

definition demo_repoData :: RepoData where
  "demo_repoData =
     \<lparr>Tokens = [''t1''], Endpoints = [''https://reg.r.io/v1/'', ''https://m.r.io/v1/'']\<rparr>"

definition demo_dockerURL :: DockerURL where
  "demo_dockerURL = \<lparr>IndexURL = ''r.io'', ImageName = ''app'', Tag = ''latest''\<rparr>"

subsection \<open>What an error message says\<close>

text \<open>
  \<open>mentions e code url\<close>: \<open>e\<close> is an error value, not a panic, and its message contains
  the status code in decimal and the URL.
\<close>

fun mentions :: "error \<Rightarrow> int \<Rightarrow> string \<Rightarrow> bool" where
  "mentions (Error msg) code url = (sublist (itoa code) msg \<and> sublist url msg)"
| "mentions (Panic msg) code url = False"

subsection \<open>What a walk has seen\<close>

text \<open>
  Three notions to state what the walk writes. A visit is \<open>visible\<close> when the walk
  function does not skip it, that is when its path relative to the root is neither
  \<open>.\<close> nor the manifest file. \<open>relpath\<close> is that relative path. \<open>seen_in\<close> is the
  cache of inodes after the visible visits \<open>pre\<close>: each inode among them, with the
  relative path of the first of them that has it.
\<close>

definition visible :: "lib \<Rightarrow> string \<Rightarrow> visit \<Rightarrow> bool" where
  "visible L root v =
     (filepath_Rel L root (v_path v) \<noteq> Inr ''.''
      \<and> filepath_Rel L root (v_path v) \<noteq> Inr ManifestFile)"

definition relpath :: "lib \<Rightarrow> string \<Rightarrow> visit \<Rightarrow> string" where
  "relpath L root v = (case filepath_Rel L root (v_path v) of Inr r \<Rightarrow> r | Inl e \<Rightarrow> '''')"

definition seen_in :: "lib \<Rightarrow> string \<Rightarrow> visit list \<Rightarrow> (64 word \<rightharpoonup> string)" where
  "seen_in L root pre =
     (\<lambda>n. map_option (relpath L root) (find (\<lambda>v. fi_Ino (v_info v) = n) pre))"

text \<open>
  \<open>written seen v e\<close>: \<open>e\<close> is the entry the walk function writes for the visible
  visit \<open>v\<close> when the cache is \<open>seen\<close>. If the inode of \<open>v\<close> is in the cache, \<open>e\<close> is
  a link to the cached path, of size 0 and without a reader. Otherwise \<open>e\<close> is not a
  link: for a regular file it has the file's size and a reader of its content, and
  for a symbolic link it has the target that \<open>os.Readlink\<close> returned. The entry of a
  symbolic link never has a reader.
\<close>

definition written :: "(64 word \<rightharpoonup> string) \<Rightarrow> visit \<Rightarrow> archive_entry \<Rightarrow> bool" where
  "written seen v e =
     ((case seen (fi_Ino (v_info v)) of
         Some p \<Rightarrow>
           hdr_Typeflag (e_hdr e) = TypeLink \<and> hdr_Size (e_hdr e) = 0
           \<and> e_reader e = None \<and> hdr_Linkname (e_hdr e) = p
       | None \<Rightarrow>
           hdr_Typeflag (e_hdr e) \<noteq> TypeLink
           \<and> (fi_Mode (v_info v) AND ModeType = 0 \<longrightarrow>
                hdr_Typeflag (e_hdr e) = TypeReg
                \<and> hdr_Size (e_hdr e) = fi_Size (v_info v)
                \<and> (\<exists>c. v_Open v = Inr c \<and> e_reader e = Some c))
           \<and> (fi_Mode (v_info v) AND ModeType = ModeSymlink \<longrightarrow>
                hdr_Typeflag (e_hdr e) = TypeSymlink
                \<and> v_Readlink v = Inr (hdr_Linkname (e_hdr e))))
      \<and> (fi_Mode (v_info v) AND ModeType = ModeSymlink \<longrightarrow> e_reader e = None)
      \<and> hdr_Name (e_hdr e) = e_path e)"

text \<open>
  The walk of the archive builder over a tree under \<open>/t\<close>, with a writer that
  accepts every entry.
\<close>

definition demo_walk :: "error option \<times> (64 word \<rightharpoonup> string) \<times> archive_entry list" where
  "demo_walk =
     Walk_run (buildWalker demo_lib (record_AddFile (\<lambda>e. None)) ''/t'') (demo_visits ''/t'')
       (Map.empty, [])"

section \<open>Reference parsing\<close>

lemma Split_not_Nil: "Split s c \<noteq> []"
  by (induction s) (auto split: list.splits)

text \<open>
  C5. Parsing is a function of the reference string alone, and on the three references
  of the specification it gives: \<open>quay.io/foo/bar:v1\<close> the index \<open>quay.io\<close>, the name
  \<open>foo/bar\<close> and the tag \<open>v1\<close>; \<open>foo/bar\<close> the default index, the name \<open>foo/bar\<close> and
  the default tag; \<open>busybox\<close> the default index, the name \<open>busybox\<close> and the default
  tag.
\<close>

theorem parseArgument_examples:
  "parseArgument ''quay.io/foo/bar:v1'' =
     \<lparr>IndexURL = ''quay.io'', ImageName = ''foo/bar'', Tag = ''v1''\<rparr>
   \<and> parseArgument ''foo/bar'' =
     \<lparr>IndexURL = defaultIndex, ImageName = ''foo/bar'', Tag = defaultTag\<rparr>
   \<and> parseArgument ''busybox'' =
     \<lparr>IndexURL = defaultIndex, ImageName = ''busybox'', Tag = defaultTag\<rparr>
   \<and> defaultIndex = ''index.docker.io'' \<and> defaultTag = ''latest''"
  by (simp add: parseArgument_def SplitN_def defaultIndex_def defaultTag_def
      numeral_2_eq_2 Let_def)

section \<open>The registry client\<close>

subsection \<open>Endpoints\<close>

lemma foldl_snoc_map: "foldl (\<lambda>acc x. acc @ [f x]) acc xs = acc @ map f xs"
  by (induction xs arbitrary: acc) auto

lemma makeEndpointsList_concat:
  "makeEndpointsList headers =
     concat (map (\<lambda>v. map (\<lambda>el. ''https://'' @ TrimSpace el @ ''/v1/'') (Split v CHR '',''))
                 headers)"
proof -
  have "foldl (\<lambda>endpoints ep.
                 foldl (\<lambda>endpoints endpointEl.
                          endpoints @ [''https://'' @ TrimSpace endpointEl @ ''/v1/''])
                       endpoints (Split ep CHR '',''))
              acc headers
        = acc @ concat (map (\<lambda>v. map (\<lambda>el. ''https://'' @ TrimSpace el @ ''/v1/'')
                                       (Split v CHR '','')) headers)" for acc
    by (induction headers arbitrary: acc) (simp_all add: foldl_snoc_map)
  then show ?thesis by (simp add: makeEndpointsList_def)
qed

lemma Header_Get_nonempty: "Header_Get h k \<noteq> [] \<Longrightarrow> Header_index h k \<noteq> []"
  by (auto simp: Header_Get_def Header_index_def split: option.splits list.splits)

lemma Header_Get_absent: "h k = None \<Longrightarrow> Header_Get h k = []"
  by (simp add: Header_Get_def)

lemma makeEndpointsList_not_Nil: "headers \<noteq> [] \<Longrightarrow> makeEndpointsList headers \<noteq> []"
  by (cases headers) (auto simp: makeEndpointsList_concat Split_not_Nil)

text \<open>What a successful call of \<open>GetRepoData\<close> has seen and what it returns.\<close>

lemma GetRepoData_Inr:
  "GetRepoData L S indexURL remote w = (Inr rd, w') \<Longrightarrow>
   \<exists>req0 res.
     NewRequest L ''GET''
       (''https://'' @ indexURL @ ''/v1/repositories/'' @ remote @ ''/images'') = Inr req0
     \<and> client_Do S (req0\<lparr>ReqHeader := Header_Set (ReqHeader req0) ''X-Docker-Token'' ''true''\<rparr>) w
         = (Inr res, w')
     \<and> StatusCode res = 200
     \<and> rd = \<lparr>Tokens = (if Header_Get (ResHeader res) ''X-Docker-Token'' \<noteq> ''''
                        then Header_index (ResHeader res) ''X-Docker-Token''
                        else []),
              Endpoints = (if Header_Get (ResHeader res) ''X-Docker-Endpoints'' \<noteq> ''''
                           then makeEndpointsList
                                  (Header_index (ResHeader res) ''X-Docker-Endpoints'')
                           else [indexURL])\<rparr>"
  by (auto simp: GetRepoData_def Let_def split: sum.splits prod.splits if_splits)

lemma GetRepoData_200:
  assumes "NewRequest L ''GET''
             (''https://'' @ indexURL @ ''/v1/repositories/'' @ remote @ ''/images'') = Inr req0"
    and "client_Do S (req0\<lparr>ReqHeader := Header_Set (ReqHeader req0) ''X-Docker-Token'' ''true''\<rparr>) w
           = (Inr res, w')"
    and "StatusCode res = 200"
  shows "GetRepoData L S indexURL remote w =
           (Inr \<lparr>Tokens = (if Header_Get (ResHeader res) ''X-Docker-Token'' \<noteq> ''''
                           then Header_index (ResHeader res) ''X-Docker-Token''
                           else []),
                 Endpoints = (if Header_Get (ResHeader res) ''X-Docker-Endpoints'' \<noteq> ''''
                              then makeEndpointsList
                                     (Header_index (ResHeader res) ''X-Docker-Endpoints'')
                              else [indexURL])\<rparr>, w')"
  using assms by (simp add: GetRepoData_def Let_def)

lemma GetRepoData_Endpoints_not_Nil:
  assumes "GetRepoData L S indexURL remote w = (Inr rd, w')"
  shows "Endpoints rd \<noteq> []"
proof -
  from GetRepoData_Inr [OF assms] obtain res :: Response and toks where
    "rd = \<lparr>Tokens = toks,
            Endpoints = (if Header_Get (ResHeader res) ''X-Docker-Endpoints'' \<noteq> ''''
                         then makeEndpointsList
                                (Header_index (ResHeader res) ''X-Docker-Endpoints'')
                         else [indexURL])\<rparr>"
    by blast
  then have rd:
    "Endpoints rd = (if Header_Get (ResHeader res) ''X-Docker-Endpoints'' \<noteq> ''''
                     then makeEndpointsList
                            (Header_index (ResHeader res) ''X-Docker-Endpoints'')
                     else [indexURL])"
    by simp
  show ?thesis
  proof (cases "Header_Get (ResHeader res) ''X-Docker-Endpoints'' = ''''")
    case True
    with rd show ?thesis by simp
  next
    case False
    then have "Header_index (ResHeader res) ''X-Docker-Endpoints'' \<noteq> []"
      by (rule Header_Get_nonempty)
    with rd False show ?thesis by (simp add: makeEndpointsList_not_Nil)
  qed
qed

subsection \<open>The small world's index\<close>

lemmas trim_defs = TrimSpace_def TrimRight_def space1_def space2_def space3_def

lemmas header_defs = Header_Get_def Header_index_def Header_Set_def

lemma demo_GetRepoData:
  "GetRepoData demo_lib (demo_sys (demo_registry missing)) ''r.io'' ''app'' w =
     (if ''https://r.io/v1/repositories/app/images'' \<in> set missing
      then Inl (Error ''HTTP code: 404, URL: https://r.io/v1/repositories/app/images'')
      else Inr \<lparr>Tokens = [''t1''],
                Endpoints = [''https://reg.r.io/v1/'', ''https://m.r.io/v1/'']\<rparr>, w)"
  by (simp add: GetRepoData_def NewRequest_def demo_lib_def demo_sys_def demo_registry_def
      ok_response_def header_defs makeEndpointsList_def trim_defs itoa_def Let_def)

lemma empty_endpoints_GetRepoData:
  "GetRepoData demo_lib (demo_sys empty_endpoints_registry) ''r.io'' ''app'' w =
     (Inr \<lparr>Tokens = [], Endpoints = [''r.io'']\<rparr>, w)"
  by (simp add: GetRepoData_def NewRequest_def demo_lib_def demo_sys_def
      empty_endpoints_registry_def ok_response_def header_defs Let_def)

text \<open>
  C10. A \<open>RepoData\<close> that \<open>GetRepoData\<close> returns without error has at least one
  endpoint, so indexing its first endpoint, as the tag resolution, the ancestry fetch
  and each layer's two fetches do, does not panic.
\<close>

theorem GetRepoData_endpoints_nonempty:
  "GetRepoData L S indexURL remote w = (Inr rd, w') \<Longrightarrow>
     Endpoints rd \<noteq> [] \<and> index (Endpoints rd) 0 = Inr (hd (Endpoints rd))"
  by (frule GetRepoData_Endpoints_not_Nil) (simp add: index_def hd_conv_nth)

theorem GetRepoData_endpoints_nonempty_witness:
  "GetRepoData demo_lib (demo_sys (demo_registry [])) ''r.io'' ''app'' [] =
     (Inr \<lparr>Tokens = [''t1''],
           Endpoints = [''https://reg.r.io/v1/'', ''https://m.r.io/v1/'']\<rparr>, [])
   \<and> Endpoints \<lparr>Tokens = [''t1''],
                 Endpoints = [''https://reg.r.io/v1/'', ''https://m.r.io/v1/'']\<rparr> \<noteq> []
   \<and> index (Endpoints \<lparr>Tokens = [''t1''],
                        Endpoints = [''https://reg.r.io/v1/'', ''https://m.r.io/v1/'']\<rparr>) 0
       = Inr ''https://reg.r.io/v1/''"
proof -
  have run: "GetRepoData demo_lib (demo_sys (demo_registry [])) ''r.io'' ''app'' [] =
     (Inr \<lparr>Tokens = [''t1''],
           Endpoints = [''https://reg.r.io/v1/'', ''https://m.r.io/v1/'']\<rparr>, [])"
    by (simp add: demo_GetRepoData)
  from GetRepoData_endpoints_nonempty [OF run] run show ?thesis by simp
qed

text \<open>
  C6, as amended. For a response of status 200 to the repository request: when the
  first value of the endpoints header is not empty, the endpoints are, for each value
  of the header and each of its comma-separated elements, in order, \<open>https://\<close>, the
  element without its surrounding white space, and \<open>/v1/\<close>; when the header is absent,
  or has no value, or its first value is empty, the endpoints are the one entry
  \<open>indexURL\<close>.
\<close>

theorem GetRepoData_endpoints:
  assumes "NewRequest L ''GET''
             (''https://'' @ indexURL @ ''/v1/repositories/'' @ remote @ ''/images'') = Inr req0"
    and "client_Do S (req0\<lparr>ReqHeader := Header_Set (ReqHeader req0) ''X-Docker-Token'' ''true''\<rparr>) w
           = (Inr res, w')"
    and "StatusCode res = 200"
  shows "\<exists>rd. GetRepoData L S indexURL remote w = (Inr rd, w')
     \<and> (Header_Get (ResHeader res) ''X-Docker-Endpoints'' \<noteq> '''' \<longrightarrow>
          Endpoints rd =
            concat (map (\<lambda>v. map (\<lambda>el. ''https://'' @ TrimSpace el @ ''/v1/'')
                                  (Split v CHR '',''))
                        (Header_index (ResHeader res) ''X-Docker-Endpoints'')))
     \<and> (Header_Get (ResHeader res) ''X-Docker-Endpoints'' = '''' \<longrightarrow>
          Endpoints rd = [indexURL])
     \<and> (ResHeader res ''X-Docker-Endpoints'' = None \<longrightarrow> Endpoints rd = [indexURL])"
  by (simp add: GetRepoData_200 [OF assms] makeEndpointsList_concat Header_Get_absent)

theorem GetRepoData_endpoints_witness:
  "\<exists>rd. GetRepoData demo_lib (demo_sys (demo_registry [])) ''r.io'' ''app'' [] = (Inr rd, [])
     \<and> Endpoints rd = [''https://reg.r.io/v1/'', ''https://m.r.io/v1/'']"
proof -
  let ?req0 = "\<lparr>Method = ''GET'', URL = ''https://r.io/v1/repositories/app/images'',
                 ReqHeader = Map.empty\<rparr>"
  let ?res = "\<lparr>StatusCode = 200,
                ResHeader = [''X-Docker-Token'' \<mapsto> [''t1''],
                             ''X-Docker-Endpoints'' \<mapsto> [''reg.r.io, m.r.io'']],
                ResBody = Body ''[]'' None\<rparr>"
  have 1: "NewRequest demo_lib ''GET''
             (''https://'' @ ''r.io'' @ ''/v1/repositories/'' @ ''app'' @ ''/images'') = Inr ?req0"
    by (simp add: NewRequest_def demo_lib_def)
  have 2: "client_Do (demo_sys (demo_registry []))
             (?req0\<lparr>ReqHeader := Header_Set (ReqHeader ?req0) ''X-Docker-Token'' ''true''\<rparr>) []
           = (Inr ?res, [])"
    by (simp add: demo_sys_def demo_registry_def ok_response_def)
  have 3: "StatusCode ?res = 200"
    by simp
  from GetRepoData_endpoints [OF 1 2 3] show ?thesis
    by (simp add: header_defs trim_defs)
qed

theorem GetRepoData_endpoints_counterexample:
  "client_Do (demo_sys empty_endpoints_registry)
     \<lparr>Method = ''GET'', URL = ''https://r.io/v1/repositories/app/images'',
      ReqHeader = [''X-Docker-Token'' \<mapsto> [''true'']]\<rparr> []
     = (Inr \<lparr>StatusCode = 200, ResHeader = [''X-Docker-Endpoints'' \<mapsto> ['''']],
             ResBody = Body ''[]'' None\<rparr>, [])
   \<and> [''X-Docker-Endpoints'' \<mapsto> ['''']] ''X-Docker-Endpoints'' = Some ['''']
   \<and> GetRepoData demo_lib (demo_sys empty_endpoints_registry) ''r.io'' ''app'' []
       = (Inr \<lparr>Tokens = [], Endpoints = [''r.io'']\<rparr>, [])
   \<and> concat (map (\<lambda>v. map (\<lambda>el. ''https://'' @ TrimSpace el @ ''/v1/'') (Split v CHR '',''))
                  ['''']) = [''https:///v1/'']
   \<and> [''r.io''] \<noteq> [''https:///v1/'']"
proof -
  have "client_Do (demo_sys empty_endpoints_registry)
     \<lparr>Method = ''GET'', URL = ''https://r.io/v1/repositories/app/images'',
      ReqHeader = [''X-Docker-Token'' \<mapsto> [''true'']]\<rparr> []
     = (Inr \<lparr>StatusCode = 200, ResHeader = [''X-Docker-Endpoints'' \<mapsto> ['''']],
             ResBody = Body ''[]'' None\<rparr>, [])"
    by (simp add: demo_sys_def empty_endpoints_registry_def ok_response_def)
  moreover have "concat (map (\<lambda>v. map (\<lambda>el. ''https://'' @ TrimSpace el @ ''/v1/'')
                                        (Split v CHR '','')) ['''']) = [''https:///v1/'']"
    by (simp add: trim_defs)
  ultimately show ?thesis
    by (simp add: empty_endpoints_GetRepoData)
qed

subsection \<open>The authorization header\<close>





subsection \<open>The size of a layer\<close>

text \<open>
  C9. When the request for a layer's JSON is answered with status 200, the response
  has no size header and its body is read without error, \<open>GetRemoteImageJSON\<close>
  returns the body with the size \<open>-1\<close>, and no error.
\<close>

theorem GetRemoteImageJSON_size_absent:
  assumes "NewRequest L ''GET'' (registry @ ''images/'' @ imgID @ ''/json'') = Inr req0"
    and "client_Do S (setAuthToken req0 token) w = (Inr res, w')"
    and "StatusCode res = 200"
    and "ResHeader res ''X-Docker-Size'' = None"
    and "ReadAll (ResBody res) = (jsonString, None)"
  shows "GetRemoteImageJSON L S imgID registry token w = (Inr (jsonString, - 1), w')"
  using assms by (simp add: GetRemoteImageJSON_def Let_def Header_Get_absent)

theorem GetRemoteImageJSON_size_absent_witness:
  "GetRemoteImageJSON demo_lib (demo_sys (demo_registry [])) ''l1'' ''https://reg.r.io/v1/''
     [''t1''] [] = (Inr (''l1'', - 1), [])"
proof -
  let ?req0 = "\<lparr>Method = ''GET'', URL = ''https://reg.r.io/v1/images/l1/json'',
                 ReqHeader = Map.empty\<rparr>"
  let ?res = "\<lparr>StatusCode = 200, ResHeader = Map.empty, ResBody = Body ''l1'' None\<rparr>"
  have 1: "NewRequest demo_lib ''GET'' (''https://reg.r.io/v1/'' @ ''images/'' @ ''l1'' @ ''/json'')
             = Inr ?req0"
    by (simp add: NewRequest_def demo_lib_def)
  have 2: "client_Do (demo_sys (demo_registry [])) (setAuthToken ?req0 [''t1'']) []
             = (Inr ?res, [])"
    by (simp add: demo_sys_def demo_registry_def ok_response_def setAuthToken_def header_defs)
  have 3: "StatusCode ?res = 200" by simp
  have 4: "ResHeader ?res ''X-Docker-Size'' = None" by simp
  have 5: "ReadAll (ResBody ?res) = (''l1'', None)" by simp
  from GetRemoteImageJSON_size_absent [OF 1 2 3 4 5] show ?thesis .
qed

section \<open>The manifest of a layer\<close>

text \<open>When \<open>GenerateManifest\<close> returns a manifest, and which.\<close>

lemma GenerateManifest_Inr:
  "GenerateManifest L layerData dockerURL parentImageID = Inr m \<longleftrightarrow>
   (\<exists>name acVersion layer version.
      NewACName L (IndexURL dockerURL @ ''/'' @ ImageName dockerURL) = Inr name
      \<and> NewSemVer L schemaVersion = Inr acVersion
      \<and> NewACName L ''layer'' = Inr layer
      \<and> NewACName L ''version'' = Inr version
      \<and> (\<exists>deps.
            (if parentImageID = '''' then deps = []
             else \<exists>h. NewHash L parentImageID = Inr h
                      \<and> deps = [\<lparr>Dependency_App = name, ImageID = h\<rparr>])
            \<and> m = \<lparr>ACKind = ''ImageManifest'', ACVersion = acVersion, Name = name,
                    Labels = [\<lparr>Label_Name = layer, Label_Value = ID layerData\<rparr>,
                              \<lparr>Label_Name = version, Label_Value = Tag dockerURL\<rparr>],
                    App = (case Config layerData of
                             None \<Rightarrow> None
                           | Some c \<Rightarrow>
                               if length (Cmd c) > 0
                               then Some \<lparr>Exec = Cmd c, User = ''0'', Group = ''0''\<rparr>
                               else None),
                    Dependencies = deps\<rparr>))"
  by (auto simp: GenerateManifest_def Let_def split: sum.splits)

lemma GenerateManifest_Entrypoint:
  "GenerateManifest L
     (layerData\<lparr>Config := map_option (\<lambda>c. c\<lparr>Entrypoint := ep\<rparr>) (Config layerData)\<rparr>)
     dockerURL parentImageID
   = GenerateManifest L layerData dockerURL parentImageID"
  by (cases "Config layerData") (simp_all add: GenerateManifest_def Let_def split: sum.splits)

text \<open>
  C2. A manifest that \<open>GenerateManifest\<close> returns has the name that \<open>NewACName\<close>
  makes of the index host, a slash and the image name; its labels are exactly
  \<open>layer\<close>, with the layer's Docker identifier, and \<open>version\<close>, with the tag; it has an
  app, which executes the command, if and only if the Docker configuration is present
  and its command is not empty; and it has a dependency, on the parent identifier's
  hash, if and only if the parent identifier is not empty. The entry point of the
  configuration does not change the result.
\<close>

theorem GenerateManifest_shape:
  "(GenerateManifest L layerData dockerURL parentImageID = Inr m \<longrightarrow>
      NewACName L (IndexURL dockerURL @ ''/'' @ ImageName dockerURL) = Inr (Name m)
      \<and> (\<exists>layer version.
            NewACName L ''layer'' = Inr layer \<and> NewACName L ''version'' = Inr version
            \<and> Labels m = [\<lparr>Label_Name = layer, Label_Value = ID layerData\<rparr>,
                          \<lparr>Label_Name = version, Label_Value = Tag dockerURL\<rparr>])
      \<and> (App m \<noteq> None \<longleftrightarrow> (\<exists>c. Config layerData = Some c \<and> Cmd c \<noteq> []))
      \<and> (\<forall>c. Config layerData = Some c \<and> Cmd c \<noteq> [] \<longrightarrow>
            App m = Some \<lparr>Exec = Cmd c, User = ''0'', Group = ''0''\<rparr>)
      \<and> (Dependencies m \<noteq> [] \<longleftrightarrow> parentImageID \<noteq> '''')
      \<and> (parentImageID \<noteq> '''' \<longrightarrow>
            (\<exists>h. NewHash L parentImageID = Inr h
                 \<and> Dependencies m = [\<lparr>Dependency_App = Name m, ImageID = h\<rparr>])))
   \<and> GenerateManifest L
        (layerData\<lparr>Config := map_option (\<lambda>c. c\<lparr>Entrypoint := ep\<rparr>) (Config layerData)\<rparr>)
        dockerURL parentImageID
      = GenerateManifest L layerData dockerURL parentImageID
   \<and> ((\<exists>m'. GenerateManifest L layerData dockerURL parentImageID = Inr m') \<longleftrightarrow>
        (\<exists>name acVersion layer version.
           NewACName L (IndexURL dockerURL @ ''/'' @ ImageName dockerURL) = Inr name
           \<and> NewSemVer L schemaVersion = Inr acVersion
           \<and> NewACName L ''layer'' = Inr layer
           \<and> NewACName L ''version'' = Inr version)
        \<and> (parentImageID = '''' \<or> (\<exists>h. NewHash L parentImageID = Inr h)))"
proof (intro conjI impI)
  assume "GenerateManifest L layerData dockerURL parentImageID = Inr m"
  then obtain name acVersion layer version deps where
    name: "NewACName L (IndexURL dockerURL @ ''/'' @ ImageName dockerURL) = Inr name"
    and labels: "NewACName L ''layer'' = Inr layer" "NewACName L ''version'' = Inr version"
    and deps: "if parentImageID = '''' then deps = []
               else \<exists>h. NewHash L parentImageID = Inr h
                        \<and> deps = [\<lparr>Dependency_App = name, ImageID = h\<rparr>]"
    and m: "m = \<lparr>ACKind = ''ImageManifest'', ACVersion = acVersion, Name = name,
                 Labels = [\<lparr>Label_Name = layer, Label_Value = ID layerData\<rparr>,
                           \<lparr>Label_Name = version, Label_Value = Tag dockerURL\<rparr>],
                 App = (case Config layerData of
                          None \<Rightarrow> None
                        | Some c \<Rightarrow>
                            if length (Cmd c) > 0
                            then Some \<lparr>Exec = Cmd c, User = ''0'', Group = ''0''\<rparr>
                            else None),
                 Dependencies = deps\<rparr>"
    unfolding GenerateManifest_Inr by blast
  show "NewACName L (IndexURL dockerURL @ ''/'' @ ImageName dockerURL) = Inr (Name m)"
    using name m by simp
  show "\<exists>layer version.
          NewACName L ''layer'' = Inr layer \<and> NewACName L ''version'' = Inr version
          \<and> Labels m = [\<lparr>Label_Name = layer, Label_Value = ID layerData\<rparr>,
                        \<lparr>Label_Name = version, Label_Value = Tag dockerURL\<rparr>]"
    using labels m by simp
  show "App m \<noteq> None \<longleftrightarrow> (\<exists>c. Config layerData = Some c \<and> Cmd c \<noteq> [])"
    using m by (simp split: option.splits)
  show "\<forall>c. Config layerData = Some c \<and> Cmd c \<noteq> [] \<longrightarrow>
          App m = Some \<lparr>Exec = Cmd c, User = ''0'', Group = ''0''\<rparr>"
    using m by simp
  show "Dependencies m \<noteq> [] \<longleftrightarrow> parentImageID \<noteq> ''''"
    using deps m by (auto split: if_splits)
  show "\<exists>h. NewHash L parentImageID = Inr h
             \<and> Dependencies m = [\<lparr>Dependency_App = Name m, ImageID = h\<rparr>]"
    if "parentImageID \<noteq> ''''"
    using that deps m by simp
next
  show "GenerateManifest L
          (layerData\<lparr>Config := map_option (\<lambda>c. c\<lparr>Entrypoint := ep\<rparr>) (Config layerData)\<rparr>)
          dockerURL parentImageID
        = GenerateManifest L layerData dockerURL parentImageID"
    by (rule GenerateManifest_Entrypoint)
next
  show "(\<exists>m'. GenerateManifest L layerData dockerURL parentImageID = Inr m') \<longleftrightarrow>
        (\<exists>name acVersion layer version.
           NewACName L (IndexURL dockerURL @ ''/'' @ ImageName dockerURL) = Inr name
           \<and> NewSemVer L schemaVersion = Inr acVersion
           \<and> NewACName L ''layer'' = Inr layer
           \<and> NewACName L ''version'' = Inr version)
        \<and> (parentImageID = '''' \<or> (\<exists>h. NewHash L parentImageID = Inr h))"
    unfolding GenerateManifest_Inr by (cases "parentImageID = ''''") auto
qed

lemma demo_GenerateManifest:
  "GenerateManifest demo_lib (demo_layerData i ep)
     \<lparr>IndexURL = ''r.io'', ImageName = ''app'', Tag = ''latest''\<rparr> p =
   Inr \<lparr>ACKind = ''ImageManifest'', ACVersion = ''0.1.1'', Name = ''r.io/app'',
        Labels = [\<lparr>Label_Name = ''layer'', Label_Value = i\<rparr>,
                  \<lparr>Label_Name = ''version'', Label_Value = ''latest''\<rparr>],
        App = Some \<lparr>Exec = [''/bin/sh''], User = ''0'', Group = ''0''\<rparr>,
        Dependencies = (if p = '''' then []
                        else [\<lparr>Dependency_App = ''r.io/app'', ImageID = p\<rparr>])\<rparr>"
  by (simp add: GenerateManifest_def demo_lib_def demo_layerData_def schemaVersion_def Let_def)

theorem GenerateManifest_shape_witness:
  "GenerateManifest demo_lib (demo_layerData ''l2'' [])
      \<lparr>IndexURL = ''r.io'', ImageName = ''app'', Tag = ''latest''\<rparr> ''sha512-l1''
    = Inr \<lparr>ACKind = ''ImageManifest'', ACVersion = ''0.1.1'', Name = ''r.io/app'',
           Labels = [\<lparr>Label_Name = ''layer'', Label_Value = ''l2''\<rparr>,
                     \<lparr>Label_Name = ''version'', Label_Value = ''latest''\<rparr>],
           App = Some \<lparr>Exec = [''/bin/sh''], User = ''0'', Group = ''0''\<rparr>,
           Dependencies = [\<lparr>Dependency_App = ''r.io/app'', ImageID = ''sha512-l1''\<rparr>]\<rparr>
   \<and> NewACName demo_lib (''r.io'' @ ''/'' @ ''app'') = Inr ''r.io/app''
   \<and> (\<exists>h. NewHash demo_lib ''sha512-l1'' = Inr h
          \<and> [\<lparr>Dependency_App = ''r.io/app'', ImageID = ''sha512-l1''\<rparr>]
              = [\<lparr>Dependency_App = ''r.io/app'', ImageID = h\<rparr>])
   \<and> GenerateManifest demo_lib (demo_layerData ''l2'' [''/entry''])
        \<lparr>IndexURL = ''r.io'', ImageName = ''app'', Tag = ''latest''\<rparr> ''sha512-l1''
      = GenerateManifest demo_lib (demo_layerData ''l2'' [])
        \<lparr>IndexURL = ''r.io'', ImageName = ''app'', Tag = ''latest''\<rparr> ''sha512-l1''"
proof -
  let ?m = "\<lparr>ACKind = ''ImageManifest'', ACVersion = ''0.1.1'', Name = ''r.io/app'',
             Labels = [\<lparr>Label_Name = ''layer'', Label_Value = ''l2''\<rparr>,
                       \<lparr>Label_Name = ''version'', Label_Value = ''latest''\<rparr>],
             App = Some \<lparr>Exec = [''/bin/sh''], User = ''0'', Group = ''0''\<rparr>,
             Dependencies = [\<lparr>Dependency_App = ''r.io/app'', ImageID = ''sha512-l1''\<rparr>]\<rparr>"
  have run: "GenerateManifest demo_lib (demo_layerData ''l2'' [])
               \<lparr>IndexURL = ''r.io'', ImageName = ''app'', Tag = ''latest''\<rparr> ''sha512-l1''
             = Inr ?m"
    by (simp add: demo_GenerateManifest)
  note shape =
    GenerateManifest_shape
      [of demo_lib "demo_layerData ''l2'' []"
          "\<lparr>IndexURL = ''r.io'', ImageName = ''app'', Tag = ''latest''\<rparr>" "''sha512-l1''" ?m
          "[''/entry'']"]
  from shape run show ?thesis
    by (simp add: demo_layerData_def)
qed

section \<open>The import of one layer\<close>

subsection \<open>Running an import in the small world\<close>

lemma demo_lib_simps:
  "url_Parse demo_lib = Inr"
  "Unmarshal_string demo_lib = Inr"
  "Unmarshal_strings demo_lib = (\<lambda>s. Inr (Split s CHR '',''))"
  "Unmarshal_DockerImageData demo_lib = (\<lambda>s. Inr (demo_layerData s []))"
  "Marshal demo_lib = (\<lambda>m. Inr (Name m))"
  "UnmarshalJSON demo_lib =
     (\<lambda>s. Inr \<lparr>ACKind = ''ImageManifest'', ACVersion = ''0.1.1'', Name = s, Labels = [],
                App = None, Dependencies = []\<rparr>)"
  "NewACName demo_lib = Inr"
  "NewSemVer demo_lib = Inr"
  "NewHash demo_lib = Inr"
  "filepath_Rel demo_lib =
     (\<lambda>root p. if p = root then Inr ''.''
                else if prefix (root @ ''/'') p then Inr (drop (length root + 1) p)
                else Inl ''Rel: no relative path'')"
  "filepath_Join demo_lib = (\<lambda>a b. a @ ''/'' @ b)"
  by (simp_all add: demo_lib_def demo_layerData_def)

lemma demo_sys_simps:
  "client_Do (demo_sys rg) = (\<lambda>req w. (rg req, w))"
  "Stdout (demo_sys rg) = (\<lambda>s w. w)"
  "Stderr (demo_sys rg) = (\<lambda>s w. w)"
  "TempDir (demo_sys rg) =
     (\<lambda>dir pre w. (Inr (''/tmp/'' @ pre @ ''0''), (''/tmp/'' @ pre @ ''0'') # w))"
  "RemoveAll (demo_sys rg) = (\<lambda>p w. filter (\<lambda>q. \<not> (q = p \<or> prefix (p @ ''/'') q)) w)"
  "MkdirAll (demo_sys rg) = (\<lambda>p w. (None, p # w))"
  "Untar (demo_sys rg) = (\<lambda>b dst w. (None, (dst @ ''/sh'') # w))"
  "Create (demo_sys rg) = (\<lambda>p w. (None, p # w))"
  "File_Write (demo_sys rg) = (\<lambda>p b w. w)"
  "File_Sync (demo_sys rg) = (\<lambda>p w. w)"
  "OpenFile (demo_sys rg) = (\<lambda>p w. (None, p # w))"
  "ValidateLayout (demo_sys rg) = (\<lambda>p w. None)"
  "ReadFile (demo_sys rg) = (\<lambda>p w. Inr ''{}'')"
  "Walk (demo_sys rg) = (\<lambda>dir w. demo_visits dir)"
  "iw_AddFile (demo_sys rg) = (\<lambda>t e w. (None, w))"
  "iw_Close (demo_sys rg) = (\<lambda>t m w. (None, w))"
  "Open (demo_sys rg) = (\<lambda>p w. None)"
  "WriteACI (demo_sys rg) = (\<lambda>store p w. (Inr (''sha512-'' @ p), w))"
  "path_exists (demo_sys rg) = (\<lambda>w p. p \<in> set w)"
  by (simp_all add: demo_sys_def)

lemmas mode_defs = ModeType_def ModeDir_def ModeSymlink_def ModeDevice_def ModeNamedPipe_def
  ModeSocket_def ModeCharDevice_def

lemmas registry_defs = NewRequest_def demo_lib_simps demo_sys_simps demo_registry_def
  ok_response_def setAuthToken_def header_defs itoa_def Let_def

lemma demo_GetRemoteImageJSON:
  "GetRemoteImageJSON demo_lib (demo_sys (demo_registry [])) ''l1'' ''https://reg.r.io/v1/''
     [''t1''] w = (Inr (''l1'', - 1), w)"
  "GetRemoteImageJSON demo_lib (demo_sys (demo_registry [])) ''l2'' ''https://reg.r.io/v1/''
     [''t1''] w = (Inr (''l2'', - 1), w)"
  "GetRemoteImageJSON demo_lib (demo_sys (demo_registry [''https://reg.r.io/v1/images/l1/json'']))
     ''l1'' ''https://reg.r.io/v1/'' [''t1''] w
     = (Inl (Error ''HTTP code: 404, URL: https://reg.r.io/v1/images/l1/json''), w)"
  by (simp_all add: GetRemoteImageJSON_def registry_defs)

lemma demo_GetRemoteLayer:
  "GetRemoteLayer demo_lib (demo_sys (demo_registry [])) ''l1'' ''https://reg.r.io/v1/''
     [''t1''] sz w = (Inr (Body ''tar1'' None), w)"
  "GetRemoteLayer demo_lib (demo_sys (demo_registry [])) ''l2'' ''https://reg.r.io/v1/''
     [''t1''] sz w = (Inr (Body ''tar2'' None), w)"
  by (simp_all add: GetRemoteLayer_def registry_defs)

lemma demo_BuildACI:
  "BuildACI demo_lib (demo_sys rg) l ''/tmp/docker2aci-0'' ''/tmp/docker2aci-0/layer'' w
     = (Inr (''/tmp/docker2aci-0/'' @ l @ ''.aci''), (''/tmp/docker2aci-0/'' @ l @ ''.aci'') # w)"
  by (simp add: BuildACI_def Let_def demo_visits_def buildWalker_def demo_lib_simps
      demo_sys_simps ManifestFile_def FileInfoHeader_def Populate_def mode_defs)

lemmas import_defs = ImportLayer_def ImportLayer_staged_def ImportLayer_extract_def
  ImportLayer_archive_def demo_GetRemoteImageJSON demo_GetRemoteLayer demo_BuildACI
  demo_repoData_def demo_dockerURL_def index_def Let_def demo_sys_simps demo_lib_simps
  demo_GenerateManifest ManifestFile_def

lemma demo_ImportLayer:
  "ImportLayer demo_lib (demo_sys (demo_registry [])) ''l1'' demo_repoData demo_dockerURL
     rocketDir p [] = (Inr ''sha512-/tmp/docker2aci-0/l1.aci'', [])"
  "ImportLayer demo_lib (demo_sys (demo_registry [])) ''l2'' demo_repoData demo_dockerURL
     rocketDir p [] = (Inr ''sha512-/tmp/docker2aci-0/l2.aci'', [])"
  "ImportLayer demo_lib (demo_sys (demo_registry [''https://reg.r.io/v1/images/l1/json'']))
     ''l1'' demo_repoData demo_dockerURL rocketDir p []
     = (Inl (Error (''Error getting image json: ''
                    @ ''HTTP code: 404, URL: https://reg.r.io/v1/images/l1/json'')), [])"
  by (simp_all add: import_defs)

subsection \<open>The staging directory\<close>

text \<open>
  C7. Whatever \<open>ImportLayer\<close> returns, an identifier, an error of any stage or a
  panic, the temporary directory that \<open>ioutil.TempDir\<close> gave it does not exist in
  the world it leaves, given that \<open>os.RemoveAll\<close> does what it is documented to do:
  once it has run on a path, the path does not exist. The call is the last thing
  \<open>ImportLayer\<close> does to the world.
\<close>

theorem ImportLayer_removes_tmpDir:
  assumes "\<forall>p x. \<not> path_exists S (RemoveAll S p x) p"
    and "TempDir S '''' ''docker2aci-'' w = (Inr tmpDir, w0)"
  shows "\<not> path_exists S
             (snd (ImportLayer L S layerID repoData dockerURL dataStore parentImageID w)) tmpDir
         \<and> (\<exists>w1. snd (ImportLayer L S layerID repoData dockerURL dataStore parentImageID w)
                   = RemoveAll S tmpDir w1)"
proof -
  obtain r w1 where
    "ImportLayer_staged L S layerID repoData dockerURL dataStore parentImageID tmpDir w0
       = (r, w1)"
    by (cases "ImportLayer_staged L S layerID repoData dockerURL dataStore parentImageID
                 tmpDir w0")
  with assms(2)
  have "ImportLayer L S layerID repoData dockerURL dataStore parentImageID w
          = (r, RemoveAll S tmpDir w1)"
    by (simp add: ImportLayer_def)
  with assms(1) show ?thesis
    by auto
qed

theorem ImportLayer_removes_tmpDir_witness:
  "(\<forall>p x. \<not> path_exists (demo_sys (demo_registry [''https://reg.r.io/v1/images/l1/json'']))
              (RemoveAll (demo_sys (demo_registry [''https://reg.r.io/v1/images/l1/json''])) p x) p)
   \<and> TempDir (demo_sys (demo_registry [''https://reg.r.io/v1/images/l1/json'']))
        '''' ''docker2aci-'' [] = (Inr ''/tmp/docker2aci-0'', [''/tmp/docker2aci-0''])
   \<and> ImportLayer demo_lib (demo_sys (demo_registry [''https://reg.r.io/v1/images/l1/json'']))
        ''l1'' demo_repoData demo_dockerURL rocketDir '''' []
      = (Inl (Error ''Error getting image json: HTTP code: 404, URL: https://reg.r.io/v1/images/l1/json''),
         [])
   \<and> \<not> path_exists (demo_sys (demo_registry [''https://reg.r.io/v1/images/l1/json'']))
         (snd (ImportLayer demo_lib
                 (demo_sys (demo_registry [''https://reg.r.io/v1/images/l1/json'']))
                 ''l1'' demo_repoData demo_dockerURL rocketDir '''' []))
         ''/tmp/docker2aci-0''
   \<and> ImportLayer demo_lib (demo_sys (demo_registry [])) ''l1'' demo_repoData demo_dockerURL
        rocketDir '''' [] = (Inr ''sha512-/tmp/docker2aci-0/l1.aci'', [])
   \<and> \<not> path_exists (demo_sys (demo_registry []))
         (snd (ImportLayer demo_lib (demo_sys (demo_registry [])) ''l1'' demo_repoData
                 demo_dockerURL rocketDir '''' []))
         ''/tmp/docker2aci-0''"
proof -
  have c: "\<forall>p x. \<not> path_exists (demo_sys rg) (RemoveAll (demo_sys rg) p x) p" for rg
    by (simp add: demo_sys_simps)
  have t: "TempDir (demo_sys rg) '''' ''docker2aci-'' []
             = (Inr ''/tmp/docker2aci-0'', [''/tmp/docker2aci-0''])" for rg
    by (simp add: demo_sys_simps)
  note fails =
    ImportLayer_removes_tmpDir
      [where S = "demo_sys (demo_registry [''https://reg.r.io/v1/images/l1/json''])"
         and L = demo_lib and layerID = "''l1''" and repoData = demo_repoData
         and dockerURL = demo_dockerURL and dataStore = rocketDir and parentImageID = "''''",
       OF c t]
  note succeeds =
    ImportLayer_removes_tmpDir
      [where S = "demo_sys (demo_registry [])"
         and L = demo_lib and layerID = "''l1''" and repoData = demo_repoData
         and dockerURL = demo_dockerURL and dataStore = rocketDir and parentImageID = "''''",
       OF c t]
  from fails succeeds c t show ?thesis
    by (simp add: demo_ImportLayer)
qed

section \<open>The conversion pipeline\<close>

subsection \<open>The calls of the loop\<close>


text \<open>One turn of the loop, when the import fails and when it succeeds.\<close>

lemma import_loop_log_fails:
  assumes "index anc i = Inr layerID"
    and "ImportLayer L S layerID rd du ds p w = (Inl e, w')"
  shows "import_loop_log L S rd du ds a anc (Suc i) ra p w
           = ((Inl e, report S ''Error importing image: '' e w'),
              [\<lparr>call_layer = layerID, call_parent = p, call_result = Inl e\<rparr>])"
    and "import_loop L S rd du ds a anc (Suc i) ra p w
           = (Inl e, report S ''Error importing image: '' e w')"
  using assms by simp_all

lemma import_loop_log_continues:
  assumes "index anc i = Inr layerID"
    and "ImportLayer L S layerID rd du ds p w = (Inr rid, w')"
    and "ra' = (if layerID = a then rid else ra)"
  shows "import_loop_log L S rd du ds a anc (Suc i) ra p w
           = (fst (import_loop_log L S rd du ds a anc i ra' rid w'),
              \<lparr>call_layer = layerID, call_parent = p, call_result = Inr rid\<rparr>
                # snd (import_loop_log L S rd du ds a anc i ra' rid w'))"
    and "import_loop L S rd du ds a anc (Suc i) ra p w
           = import_loop L S rd du ds a anc i ra' rid w'"
  using assms by (simp_all add: case_prod_beta)

lemma import_loop_log_panics:
  assumes "index anc i = Inl e"
  shows "import_loop_log L S rd du ds a anc (Suc i) ra p w = ((Inl e, w), [])"
    and "import_loop L S rd du ds a anc (Suc i) ra p w = (Inl e, w)"
  using assms by simp_all

declare import_loop.simps(2) [simp del] import_loop_log.simps(2) [simp del]




text \<open>A call that fails is the last call, and its error is what the loop returns.\<close>

lemma import_loop_log_failure:
  "k < length (snd (import_loop_log L S rd du ds a anc n ra p w)) \<Longrightarrow>
   call_result (snd (import_loop_log L S rd du ds a anc n ra p w) ! k) = Inl e \<Longrightarrow>
     Suc k = length (snd (import_loop_log L S rd du ds a anc n ra p w))
     \<and> fst (import_loop L S rd du ds a anc n ra p w) = Inl e"
proof (induction n arbitrary: ra p w k)
  case 0
  then show ?case by simp
next
  case (Suc i)
  show ?case
  proof (cases "index anc i")
    case (Inl e')
    with Suc.prems show ?thesis by (simp add: import_loop_log_panics)
  next
    case layer: (Inr layerID)
    obtain r w' where imp: "ImportLayer L S layerID rd du ds p w = (r, w')"
      by (cases "ImportLayer L S layerID rd du ds p w")
    show ?thesis
    proof (cases r)
      case (Inl e')
      with imp have "ImportLayer L S layerID rd du ds p w = (Inl e', w')"
        by simp
      with Suc.prems show ?thesis
        by (simp add: import_loop_log_fails [OF layer])
    next
      case (Inr rid)
      define ra' where "ra' = (if layerID = a then rid else ra)"
      from imp Inr have ok: "ImportLayer L S layerID rd du ds p w = (Inr rid, w')"
        by simp
      let ?rest = "snd (import_loop_log L S rd du ds a anc i ra' rid w')"
      note step = import_loop_log_continues [OF layer ok ra'_def]
      from Suc.prems obtain k' where k': "k = Suc k'"
        by (cases k) (auto simp: step)
      with Suc.prems
      have "k' < length ?rest" "call_result (?rest ! k') = Inl e"
        by (simp_all add: step)
      from Suc.IH [OF this] k' show ?thesis
        by (simp add: step)
    qed
  qed
qed


subsection \<open>A successful import has generated its manifest\<close>






subsection \<open>The small world's pipeline\<close>


lemma demo_import_loop_log_missing:
  "import_loop_log demo_lib (demo_sys (demo_registry [''https://reg.r.io/v1/images/l1/json'']))
     demo_repoData demo_dockerURL rocketDir
     ''l2'' [''l2'', ''l1''] (Suc (Suc 0)) '''' '''' []
   = ((Inl (Error ''Error getting image json: HTTP code: 404, URL: https://reg.r.io/v1/images/l1/json''),
       []),
      [\<lparr>call_layer = ''l1'', call_parent = '''',
        call_result =
          Inl (Error ''Error getting image json: HTTP code: 404, URL: https://reg.r.io/v1/images/l1/json'')\<rparr>])"
  by (simp add: import_loop_log.simps(2) index_def demo_ImportLayer demo_sys_simps)

lemma demo_GetAncestry:
  "GetAncestry demo_lib (demo_sys (demo_registry missing)) ''l2'' ''https://reg.r.io/v1/''
     [''t1''] w
   = (if ''https://reg.r.io/v1/images/l2/ancestry'' \<in> set missing
      then Inl (Error ''HTTP code: 404. URL: https://reg.r.io/v1/images/l2/ancestry'')
      else Inr [''l2'', ''l1''], w)"
  by (simp add: GetAncestry_def registry_defs)

subsection \<open>The order of the imports and the chain of dependencies\<close>




section \<open>A status that is not 200\<close>

subsection \<open>The message\<close>

lemma sublist_prepend: "sublist xs ys \<Longrightarrow> sublist xs (p @ ys)"
proof -
  assume "sublist xs ys"
  then obtain a b where "ys = a @ xs @ b"
    by (auto simp: sublist_def)
  then have "p @ ys = (p @ a) @ xs @ b"
    by simp
  then show ?thesis
    unfolding sublist_def by blast
qed

lemma status_mentions: "mentions (Error (''HTTP code: '' @ itoa c @ sep @ u)) c u"
proof -
  have "sublist (itoa c) (''HTTP code: '' @ itoa c @ sep @ u)"
    by (rule sublist_appendI)
  moreover have "sublist u ((''HTTP code: '' @ itoa c @ sep) @ u)"
    by (rule sublist_append_leftI)
  ultimately show ?thesis
    by simp
qed

lemma mentions_wrap: "mentions e c u \<Longrightarrow> mentions (wrap p e) c u"
  by (cases e) (simp_all add: sublist_prepend)

subsection \<open>The five operations\<close>

lemma GetRepoData_status:
  assumes "NewRequest L ''GET''
             (''https://'' @ indexURL @ ''/v1/repositories/'' @ remote @ ''/images'') = Inr req0"
    and "client_Do S (req0\<lparr>ReqHeader := Header_Set (ReqHeader req0) ''X-Docker-Token'' ''true''\<rparr>) w
           = (Inr res, w')"
    and "StatusCode res \<noteq> 200"
  shows "GetRepoData L S indexURL remote w
           = (Inl (Error (''HTTP code: '' @ itoa (StatusCode res) @ '', URL: '' @ URL req0)), w')"
  using assms by (simp add: GetRepoData_def Let_def)

lemma setAuthToken_URL: "URL (setAuthToken req token) = URL req"
  by (simp add: setAuthToken_def)

lemma GetRemoteImageJSON_status:
  assumes "NewRequest L ''GET'' (registry @ ''images/'' @ imgID @ ''/json'') = Inr req0"
    and "client_Do S (setAuthToken req0 token) w = (Inr res, w')"
    and "StatusCode res \<noteq> 200"
  shows "GetRemoteImageJSON L S imgID registry token w
           = (Inl (Error (''HTTP code: '' @ itoa (StatusCode res) @ '', URL: '' @ URL req0)), w')"
  using assms by (simp add: GetRemoteImageJSON_def Let_def setAuthToken_URL)

lemma GetRemoteLayer_status:
  assumes "NewRequest L ''GET'' (registry @ ''images/'' @ imgID @ ''/layer'') = Inr req0"
    and "client_Do S (setAuthToken req0 token)
           (Stdout S (imgID @ '': Downloading layer'' @ [CHR 0x0A]) w) = (Inr res, w')"
    and "StatusCode res \<noteq> 200"
  shows "GetRemoteLayer L S imgID registry token imgSize w
           = (Inl (Error (''HTTP code: '' @ itoa (StatusCode res) @ ''. URL: '' @ URL req0)), w')"
  using assms by (simp add: GetRemoteLayer_def Let_def setAuthToken_URL)

lemma GetImageIDFromTag_status:
  assumes "NewRequest L ''GET'' (registry @ ''repositories/'' @ appName @ ''/tags/'' @ tag)
             = Inr req0"
    and "client_Do S (setAuthToken req0 token) w = (Inr res, w')"
    and "StatusCode res \<noteq> 200"
  shows "GetImageIDFromTag L S registry appName tag token w
           = (Inl (Error (''HTTP code: '' @ itoa (StatusCode res) @ ''. URL: '' @ URL req0)), w')"
  using assms by (simp add: GetImageIDFromTag_def Let_def setAuthToken_URL)

lemma GetAncestry_status:
  assumes "NewRequest L ''GET'' (registry @ ''images/'' @ imgID @ ''/ancestry'') = Inr req0"
    and "client_Do S (setAuthToken req0 token) w = (Inr res, w')"
    and "StatusCode res \<noteq> 200"
  shows "GetAncestry L S imgID registry token w
           = (Inl (Error (''HTTP code: '' @ itoa (StatusCode res) @ ''. URL: '' @ URL req0)), w')"
  using assms by (simp add: GetAncestry_def Let_def setAuthToken_URL)

subsection \<open>How an error reaches the caller of the pipeline\<close>

text \<open>An error of one of the two fetches of a layer is the error of its import.\<close>

lemma ImportLayer_json_error:
  assumes "TempDir S '''' ''docker2aci-'' w = (Inr tmpDir, w0)"
    and "MkdirAll S (tmpDir @ ''/layer'' @ ''/rootfs'') w0 = (None, w1)"
    and "Endpoints rd \<noteq> []"
    and "GetRemoteImageJSON L S layerID (Endpoints rd ! 0) (Tokens rd) w1 = (Inl e, w2)"
  shows "ImportLayer L S layerID rd du ds parent w
           = (Inl (wrap ''Error getting image json: '' e), RemoveAll S tmpDir w2)"
  using assms by (simp add: ImportLayer_def ImportLayer_staged_def Let_def index_def)

lemma ImportLayer_layer_error:
  assumes "TempDir S '''' ''docker2aci-'' w = (Inr tmpDir, w0)"
    and "MkdirAll S (tmpDir @ ''/layer'' @ ''/rootfs'') w0 = (None, w1)"
    and "Endpoints rd \<noteq> []"
    and "GetRemoteImageJSON L S layerID (Endpoints rd ! 0) (Tokens rd) w1
           = (Inr (jsonString, sz), w2)"
    and "Unmarshal_DockerImageData L jsonString = Inr layerData"
    and "GetRemoteLayer L S layerID (Endpoints rd ! 0) (Tokens rd) sz w2 = (Inl e, w3)"
  shows "ImportLayer L S layerID rd du ds parent w
           = (Inl (wrap ''Error getting the remote layer: '' e), RemoveAll S tmpDir w3)"
  using assms by (simp add: ImportLayer_def ImportLayer_staged_def Let_def index_def)

text \<open>
  \<open>runDocker2ACI\<close> returns the error of the first of its steps that fails: the
  repository data, the tag, the ancestry, and the loop of imports.
\<close>

lemma runDocker2ACI_repo_error:
  assumes "GetRepoData L S (IndexURL (parseArgument arg)) (ImageName (parseArgument arg)) w
             = (Inl e, w1)"
  shows "fst (runDocker2ACI L S arg w) = Some e"
  using assms by (simp add: runDocker2ACI_def Let_def)

lemma runDocker2ACI_tag_error:
  assumes "GetRepoData L S (IndexURL (parseArgument arg)) (ImageName (parseArgument arg)) w
             = (Inr rd, w1)"
    and "GetImageIDFromTag L S (Endpoints rd ! 0) (ImageName (parseArgument arg))
           (Tag (parseArgument arg)) (Tokens rd) w1 = (Inl e, w2)"
  shows "fst (runDocker2ACI L S arg w) = Some e"
proof -
  from GetRepoData_Endpoints_not_Nil [OF assms(1)]
  have "index (Endpoints rd) 0 = Inr (Endpoints rd ! 0)"
    by (simp add: index_def)
  with assms show ?thesis
    by (simp add: runDocker2ACI_def Let_def)
qed

lemma runDocker2ACI_ancestry_error:
  assumes "GetRepoData L S (IndexURL (parseArgument arg)) (ImageName (parseArgument arg)) w
             = (Inr rd, w1)"
    and "GetImageIDFromTag L S (Endpoints rd ! 0) (ImageName (parseArgument arg))
           (Tag (parseArgument arg)) (Tokens rd) w1 = (Inr appImageID, w2)"
    and "GetAncestry L S appImageID (Endpoints rd ! 0) (Tokens rd) w2 = (Inl e, w3)"
  shows "fst (runDocker2ACI L S arg w) = Some e"
proof -
  from GetRepoData_Endpoints_not_Nil [OF assms(1)]
  have "index (Endpoints rd) 0 = Inr (Endpoints rd ! 0)"
    by (simp add: index_def)
  with assms show ?thesis
    by (simp add: runDocker2ACI_def Let_def)
qed

lemma runDocker2ACI_loop:
  assumes "GetRepoData L S (IndexURL (parseArgument arg)) (ImageName (parseArgument arg)) w
             = (Inr rd, w1)"
    and "GetImageIDFromTag L S (Endpoints rd ! 0) (ImageName (parseArgument arg))
           (Tag (parseArgument arg)) (Tokens rd) w1 = (Inr appImageID, w2)"
    and "GetAncestry L S appImageID (Endpoints rd ! 0) (Tokens rd) w2 = (Inr ancestry, w3)"
  shows "fst (runDocker2ACI L S arg w)
           = (case fst (import_loop L S rd (parseArgument arg) rocketDir appImageID ancestry
                          (length ancestry) '''' '''' w3) of
                Inl e \<Rightarrow> Some e
              | Inr rocketAppImageID \<Rightarrow> None)"
proof -
  from GetRepoData_Endpoints_not_Nil [OF assms(1)]
  have "index (Endpoints rd) 0 = Inr (Endpoints rd ! 0)"
    by (simp add: index_def)
  with assms show ?thesis
    by (simp add: runDocker2ACI_def Let_def split: prod.splits sum.splits)
qed

lemma runDocker2ACI_import_error:
  assumes "GetRepoData L S (IndexURL (parseArgument arg)) (ImageName (parseArgument arg)) w
             = (Inr rd, w1)"
    and "GetImageIDFromTag L S (Endpoints rd ! 0) (ImageName (parseArgument arg))
           (Tag (parseArgument arg)) (Tokens rd) w1 = (Inr appImageID, w2)"
    and "GetAncestry L S appImageID (Endpoints rd ! 0) (Tokens rd) w2 = (Inr ancestry, w3)"
    and "k < length (snd (import_loop_log L S rd (parseArgument arg) rocketDir appImageID
                            ancestry (length ancestry) '''' '''' w3))"
    and "call_result (snd (import_loop_log L S rd (parseArgument arg) rocketDir appImageID
                             ancestry (length ancestry) '''' '''' w3) ! k) = Inl e"
  shows "fst (runDocker2ACI L S arg w) = Some e
         \<and> Suc k = length (snd (import_loop_log L S rd (parseArgument arg) rocketDir
                                   appImageID ancestry (length ancestry) '''' '''' w3))"
  using import_loop_log_failure [OF assms(4,5)] runDocker2ACI_loop [OF assms(1,2,3)]
  by simp

subsection \<open>The small world's pipeline with a missing layer\<close>

lemma demo_parseArgument: "parseArgument ''r.io/app'' = demo_dockerURL"
  by (simp add: parseArgument_def SplitN_def defaultTag_def demo_dockerURL_def
      numeral_2_eq_2 Let_def)

lemma demo_GetImageIDFromTag:
  "GetImageIDFromTag demo_lib (demo_sys (demo_registry missing)) ''https://reg.r.io/v1/''
     ''app'' ''latest'' [''t1''] w
   = (if ''https://reg.r.io/v1/repositories/app/tags/latest'' \<in> set missing
      then Inl (Error ''HTTP code: 404. URL: https://reg.r.io/v1/repositories/app/tags/latest'')
      else Inr ''l2'', w)"
  by (simp add: GetImageIDFromTag_def registry_defs)

text \<open>
  C4. When the response to the request of a registry operation has a status other
  than 200, so in particular when the status is not a success status, the operation
  returns an error whose message contains the status code and the URL of the request;
  this holds for the repository data, the JSON of a layer, the blob of a layer, the
  tag and the ancestry. Wrapping an error keeps what its message contains; the import
  of a layer returns the wrapped error of either of its two fetches; and
  \<open>runDocker2ACI\<close> returns the error of the repository data, of the tag, of the
  ancestry, and of an import that fails, after which no other import is made.
\<close>

theorem registry_status_aborts:
  assumes "StatusCode res \<noteq> 200"
  shows
   "(NewRequest L ''GET''
        (''https://'' @ indexURL @ ''/v1/repositories/'' @ remote @ ''/images'') = Inr req0
      \<and> client_Do S (req0\<lparr>ReqHeader := Header_Set (ReqHeader req0) ''X-Docker-Token'' ''true''\<rparr>) w
          = (Inr res, w')
      \<longrightarrow> (\<exists>e. GetRepoData L S indexURL remote w = (Inl e, w')
               \<and> mentions e (StatusCode res) (URL req0)))
    \<and> (NewRequest L ''GET'' (registry @ ''images/'' @ imgID @ ''/json'') = Inr req0
      \<and> client_Do S (setAuthToken req0 token) w = (Inr res, w')
      \<longrightarrow> (\<exists>e. GetRemoteImageJSON L S imgID registry token w = (Inl e, w')
               \<and> mentions e (StatusCode res) (URL req0)))
    \<and> (NewRequest L ''GET'' (registry @ ''images/'' @ imgID @ ''/layer'') = Inr req0
      \<and> client_Do S (setAuthToken req0 token)
          (Stdout S (imgID @ '': Downloading layer'' @ [CHR 0x0A]) w) = (Inr res, w')
      \<longrightarrow> (\<exists>e. GetRemoteLayer L S imgID registry token imgSize w = (Inl e, w')
               \<and> mentions e (StatusCode res) (URL req0)))
    \<and> (NewRequest L ''GET'' (registry @ ''repositories/'' @ appName @ ''/tags/'' @ tag)
        = Inr req0
      \<and> client_Do S (setAuthToken req0 token) w = (Inr res, w')
      \<longrightarrow> (\<exists>e. GetImageIDFromTag L S registry appName tag token w = (Inl e, w')
               \<and> mentions e (StatusCode res) (URL req0)))
    \<and> (NewRequest L ''GET'' (registry @ ''images/'' @ imgID @ ''/ancestry'') = Inr req0
      \<and> client_Do S (setAuthToken req0 token) w = (Inr res, w')
      \<longrightarrow> (\<exists>e. GetAncestry L S imgID registry token w = (Inl e, w')
               \<and> mentions e (StatusCode res) (URL req0)))
    \<and> (mentions e c u \<longrightarrow> mentions (wrap p e) c u)
    \<and> (TempDir S '''' ''docker2aci-'' v = (Inr tmpDir, v0)
      \<and> MkdirAll S (tmpDir @ ''/layer'' @ ''/rootfs'') v0 = (None, v1)
      \<and> Endpoints rd \<noteq> []
      \<and> GetRemoteImageJSON L S layerID (Endpoints rd ! 0) (Tokens rd) v1 = (Inl e, v2)
      \<longrightarrow> fst (ImportLayer L S layerID rd du ds parent v)
            = Inl (wrap ''Error getting image json: '' e))
    \<and> (TempDir S '''' ''docker2aci-'' v = (Inr tmpDir, v0)
      \<and> MkdirAll S (tmpDir @ ''/layer'' @ ''/rootfs'') v0 = (None, v1)
      \<and> Endpoints rd \<noteq> []
      \<and> GetRemoteImageJSON L S layerID (Endpoints rd ! 0) (Tokens rd) v1
          = (Inr (jsonString, sz), v2)
      \<and> Unmarshal_DockerImageData L jsonString = Inr layerData
      \<and> GetRemoteLayer L S layerID (Endpoints rd ! 0) (Tokens rd) sz v2 = (Inl e, v3)
      \<longrightarrow> fst (ImportLayer L S layerID rd du ds parent v)
            = Inl (wrap ''Error getting the remote layer: '' e))
    \<and> (GetRepoData L S (IndexURL (parseArgument arg)) (ImageName (parseArgument arg)) x
        = (Inl er, x1)
      \<longrightarrow> fst (runDocker2ACI L S arg x) = Some er)
    \<and> (GetRepoData L S (IndexURL (parseArgument arg)) (ImageName (parseArgument arg)) x
        = (Inr rd, x1)
      \<and> GetImageIDFromTag L S (Endpoints rd ! 0) (ImageName (parseArgument arg))
          (Tag (parseArgument arg)) (Tokens rd) x1 = (Inl er, x2)
      \<longrightarrow> fst (runDocker2ACI L S arg x) = Some er)
    \<and> (GetRepoData L S (IndexURL (parseArgument arg)) (ImageName (parseArgument arg)) x
        = (Inr rd, x1)
      \<and> GetImageIDFromTag L S (Endpoints rd ! 0) (ImageName (parseArgument arg))
          (Tag (parseArgument arg)) (Tokens rd) x1 = (Inr appImageID, x2)
      \<and> GetAncestry L S appImageID (Endpoints rd ! 0) (Tokens rd) x2 = (Inl er, x3)
      \<longrightarrow> fst (runDocker2ACI L S arg x) = Some er)
    \<and> (GetRepoData L S (IndexURL (parseArgument arg)) (ImageName (parseArgument arg)) x
        = (Inr rd, x1)
      \<and> GetImageIDFromTag L S (Endpoints rd ! 0) (ImageName (parseArgument arg))
          (Tag (parseArgument arg)) (Tokens rd) x1 = (Inr appImageID, x2)
      \<and> GetAncestry L S appImageID (Endpoints rd ! 0) (Tokens rd) x2 = (Inr ancestry, x3)
      \<and> k < length (snd (import_loop_log L S rd (parseArgument arg) rocketDir appImageID
                            ancestry (length ancestry) '''' '''' x3))
      \<and> call_result (snd (import_loop_log L S rd (parseArgument arg) rocketDir appImageID
                            ancestry (length ancestry) '''' '''' x3) ! k) = Inl er
      \<longrightarrow> fst (runDocker2ACI L S arg x) = Some er
          \<and> Suc k = length (snd (import_loop_log L S rd (parseArgument arg) rocketDir
                                    appImageID ancestry (length ancestry) '''' '''' x3)))"
proof (intro conjI impI; (elim conjE)?)
  show "\<exists>e. GetRepoData L S indexURL remote w = (Inl e, w')
            \<and> mentions e (StatusCode res) (URL req0)"
    if "NewRequest L ''GET''
          (''https://'' @ indexURL @ ''/v1/repositories/'' @ remote @ ''/images'') = Inr req0"
      and "client_Do S (req0\<lparr>ReqHeader := Header_Set (ReqHeader req0) ''X-Docker-Token'' ''true''\<rparr>) w
             = (Inr res, w')"
    using GetRepoData_status [OF that assms] status_mentions by fastforce
  show "\<exists>e. GetRemoteImageJSON L S imgID registry token w = (Inl e, w')
            \<and> mentions e (StatusCode res) (URL req0)"
    if "NewRequest L ''GET'' (registry @ ''images/'' @ imgID @ ''/json'') = Inr req0"
      and "client_Do S (setAuthToken req0 token) w = (Inr res, w')"
    using GetRemoteImageJSON_status [OF that assms] status_mentions by fastforce
  show "\<exists>e. GetRemoteLayer L S imgID registry token imgSize w = (Inl e, w')
            \<and> mentions e (StatusCode res) (URL req0)"
    if "NewRequest L ''GET'' (registry @ ''images/'' @ imgID @ ''/layer'') = Inr req0"
      and "client_Do S (setAuthToken req0 token)
             (Stdout S (imgID @ '': Downloading layer'' @ [CHR 0x0A]) w) = (Inr res, w')"
    using GetRemoteLayer_status [OF that assms] status_mentions by fastforce
  show "\<exists>e. GetImageIDFromTag L S registry appName tag token w = (Inl e, w')
            \<and> mentions e (StatusCode res) (URL req0)"
    if "NewRequest L ''GET'' (registry @ ''repositories/'' @ appName @ ''/tags/'' @ tag)
          = Inr req0"
      and "client_Do S (setAuthToken req0 token) w = (Inr res, w')"
    using GetImageIDFromTag_status [OF that assms] status_mentions by fastforce
  show "\<exists>e. GetAncestry L S imgID registry token w = (Inl e, w')
            \<and> mentions e (StatusCode res) (URL req0)"
    if "NewRequest L ''GET'' (registry @ ''images/'' @ imgID @ ''/ancestry'') = Inr req0"
      and "client_Do S (setAuthToken req0 token) w = (Inr res, w')"
    using GetAncestry_status [OF that assms] status_mentions by fastforce
  show "mentions (wrap p e) c u" if "mentions e c u"
    using that by (rule mentions_wrap)
  show "fst (ImportLayer L S layerID rd du ds parent v)
          = Inl (wrap ''Error getting image json: '' e)"
    if "TempDir S '''' ''docker2aci-'' v = (Inr tmpDir, v0)"
      and "MkdirAll S (tmpDir @ ''/layer'' @ ''/rootfs'') v0 = (None, v1)"
      and "Endpoints rd \<noteq> []"
      and "GetRemoteImageJSON L S layerID (Endpoints rd ! 0) (Tokens rd) v1 = (Inl e, v2)"
    by (simp add: ImportLayer_json_error [OF that])
  show "fst (ImportLayer L S layerID rd du ds parent v)
          = Inl (wrap ''Error getting the remote layer: '' e)"
    if "TempDir S '''' ''docker2aci-'' v = (Inr tmpDir, v0)"
      and "MkdirAll S (tmpDir @ ''/layer'' @ ''/rootfs'') v0 = (None, v1)"
      and "Endpoints rd \<noteq> []"
      and "GetRemoteImageJSON L S layerID (Endpoints rd ! 0) (Tokens rd) v1
             = (Inr (jsonString, sz), v2)"
      and "Unmarshal_DockerImageData L jsonString = Inr layerData"
      and "GetRemoteLayer L S layerID (Endpoints rd ! 0) (Tokens rd) sz v2 = (Inl e, v3)"
    by (simp add: ImportLayer_layer_error [OF that])
  show "fst (runDocker2ACI L S arg x) = Some er"
    if "GetRepoData L S (IndexURL (parseArgument arg)) (ImageName (parseArgument arg)) x
          = (Inl er, x1)"
    using that by (rule runDocker2ACI_repo_error)
  show "fst (runDocker2ACI L S arg x) = Some er"
    if "GetRepoData L S (IndexURL (parseArgument arg)) (ImageName (parseArgument arg)) x
          = (Inr rd, x1)"
      and "GetImageIDFromTag L S (Endpoints rd ! 0) (ImageName (parseArgument arg))
             (Tag (parseArgument arg)) (Tokens rd) x1 = (Inl er, x2)"
    using that by (rule runDocker2ACI_tag_error)
  show "fst (runDocker2ACI L S arg x) = Some er"
    if "GetRepoData L S (IndexURL (parseArgument arg)) (ImageName (parseArgument arg)) x
          = (Inr rd, x1)"
      and "GetImageIDFromTag L S (Endpoints rd ! 0) (ImageName (parseArgument arg))
             (Tag (parseArgument arg)) (Tokens rd) x1 = (Inr appImageID, x2)"
      and "GetAncestry L S appImageID (Endpoints rd ! 0) (Tokens rd) x2 = (Inl er, x3)"
    using that by (rule runDocker2ACI_ancestry_error)
  show "fst (runDocker2ACI L S arg x) = Some er"
    and "Suc k = length (snd (import_loop_log L S rd (parseArgument arg) rocketDir
                                appImageID ancestry (length ancestry) '''' '''' x3))"
    if "GetRepoData L S (IndexURL (parseArgument arg)) (ImageName (parseArgument arg)) x
          = (Inr rd, x1)"
      and "GetImageIDFromTag L S (Endpoints rd ! 0) (ImageName (parseArgument arg))
             (Tag (parseArgument arg)) (Tokens rd) x1 = (Inr appImageID, x2)"
      and "GetAncestry L S appImageID (Endpoints rd ! 0) (Tokens rd) x2 = (Inr ancestry, x3)"
      and "k < length (snd (import_loop_log L S rd (parseArgument arg) rocketDir appImageID
                              ancestry (length ancestry) '''' '''' x3))"
      and "call_result (snd (import_loop_log L S rd (parseArgument arg) rocketDir appImageID
                               ancestry (length ancestry) '''' '''' x3) ! k) = Inl er"
    using runDocker2ACI_import_error [OF that] by blast+
qed

theorem registry_status_aborts_witness:
  "StatusCode \<lparr>StatusCode = 404, ResHeader = Map.empty, ResBody = Body '''' None\<rparr> \<noteq> 200
   \<and> client_Do (demo_sys (demo_registry [''https://reg.r.io/v1/images/l1/json'']))
        (setAuthToken \<lparr>Method = ''GET'', URL = ''https://reg.r.io/v1/images/l1/json'',
                       ReqHeader = Map.empty\<rparr> [''t1'']) []
      = (Inr \<lparr>StatusCode = 404, ResHeader = Map.empty, ResBody = Body '''' None\<rparr>, [])
   \<and> GetRemoteImageJSON demo_lib
        (demo_sys (demo_registry [''https://reg.r.io/v1/images/l1/json'']))
        ''l1'' ''https://reg.r.io/v1/'' [''t1''] []
      = (Inl (Error ''HTTP code: 404, URL: https://reg.r.io/v1/images/l1/json''), [])
   \<and> mentions (Error ''HTTP code: 404, URL: https://reg.r.io/v1/images/l1/json'') 404
        ''https://reg.r.io/v1/images/l1/json''
   \<and> fst (ImportLayer demo_lib
             (demo_sys (demo_registry [''https://reg.r.io/v1/images/l1/json'']))
             ''l1'' demo_repoData demo_dockerURL rocketDir '''' [])
      = Inl (Error ''Error getting image json: HTTP code: 404, URL: https://reg.r.io/v1/images/l1/json'')
   \<and> mentions
        (Error ''Error getting image json: HTTP code: 404, URL: https://reg.r.io/v1/images/l1/json'')
        404 ''https://reg.r.io/v1/images/l1/json''
   \<and> fst (runDocker2ACI demo_lib
             (demo_sys (demo_registry [''https://reg.r.io/v1/images/l1/json'']))
             ''r.io/app'' [])
      = Some (Error ''Error getting image json: HTTP code: 404, URL: https://reg.r.io/v1/images/l1/json'')"
proof -
  let ?S = "demo_sys (demo_registry [''https://reg.r.io/v1/images/l1/json''])"
  let ?res = "\<lparr>StatusCode = 404, ResHeader = Map.empty, ResBody = Body '''' None\<rparr>"
  let ?req0 = "\<lparr>Method = ''GET'', URL = ''https://reg.r.io/v1/images/l1/json'',
                 ReqHeader = Map.empty\<rparr>"
  let ?u = "''https://reg.r.io/v1/images/l1/json''"
  let ?e = "Error ''HTTP code: 404, URL: https://reg.r.io/v1/images/l1/json''"
  let ?er = "Error ''Error getting image json: HTTP code: 404, URL: https://reg.r.io/v1/images/l1/json''"
  let ?calls = "snd (import_loop_log demo_lib ?S demo_repoData (parseArgument ''r.io/app'')
                       rocketDir ''l2'' [''l2'', ''l1''] (length [''l2'', ''l1'']) '''' '''' [])"
  have status: "StatusCode ?res \<noteq> 200"
    by simp
  note T =
    registry_status_aborts
      [where res = ?res and L = demo_lib and S = ?S and registry = "''https://reg.r.io/v1/''"
         and imgID = "''l1''" and token = "[''t1'']" and ?req0.0 = ?req0 and w = "[]"
         and w' = "[]" and e = ?e and c = 404 and u = ?u
         and p = "''Error getting image json: ''" and v = "[]"
         and tmpDir = "''/tmp/docker2aci-0''" and ?v0.0 = "[''/tmp/docker2aci-0'']"
         and ?v1.0 = "[''/tmp/docker2aci-0/layer/rootfs'', ''/tmp/docker2aci-0'']"
         and ?v2.0 = "[''/tmp/docker2aci-0/layer/rootfs'', ''/tmp/docker2aci-0'']"
         and rd = demo_repoData and layerID = "''l1''" and du = demo_dockerURL
         and ds = rocketDir and parent = "''''" and arg = "''r.io/app''" and x = "[]"
         and ?x1.0 = "[]" and ?x2.0 = "[]" and ?x3.0 = "[]" and appImageID = "''l2''"
         and ancestry = "[''l2'', ''l1'']" and k = 0 and er = ?er,
       OF status]
  have req: "NewRequest demo_lib ''GET'' (''https://reg.r.io/v1/'' @ ''images/'' @ ''l1'' @ ''/json'')
               = Inr ?req0"
    by (simp add: NewRequest_def demo_lib_simps)
  have resp: "client_Do ?S (setAuthToken ?req0 [''t1'']) [] = (Inr ?res, [])"
    by (simp add: registry_defs)
  note T2 = T [THEN conjunct2]
  note T6 = T2 [THEN conjunct2, THEN conjunct2, THEN conjunct2, THEN conjunct2]
  note T7 = T6 [THEN conjunct2]
  note T12 = T7 [THEN conjunct2, THEN conjunct2, THEN conjunct2, THEN conjunct2, THEN conjunct2]
  from T2 [THEN conjunct1, THEN mp, OF conjI [OF req resp]] obtain e where
    "GetRemoteImageJSON demo_lib ?S ''l1'' ''https://reg.r.io/v1/'' [''t1''] [] = (Inl e, [])"
    and "mentions e (StatusCode ?res) (URL ?req0)"
    by (elim exE conjE)
  then have json: "GetRemoteImageJSON demo_lib ?S ''l1'' ''https://reg.r.io/v1/'' [''t1''] []
                     = (Inl ?e, [])"
    and m1: "mentions ?e 404 ?u"
    by (simp_all add: demo_GetRemoteImageJSON)
  from T6 [THEN conjunct1, THEN mp, OF m1]
  have m2: "mentions ?er 404 ?u"
    by (simp only: wrap.simps append.simps)
  have staging:
    "TempDir ?S '''' ''docker2aci-'' [] = (Inr ''/tmp/docker2aci-0'', [''/tmp/docker2aci-0''])"
    "MkdirAll ?S (''/tmp/docker2aci-0'' @ ''/layer'' @ ''/rootfs'') [''/tmp/docker2aci-0'']
       = (None, [''/tmp/docker2aci-0/layer/rootfs'', ''/tmp/docker2aci-0''])"
    "Endpoints demo_repoData \<noteq> []"
    "GetRemoteImageJSON demo_lib ?S ''l1'' (Endpoints demo_repoData ! 0) (Tokens demo_repoData)
       [''/tmp/docker2aci-0/layer/rootfs'', ''/tmp/docker2aci-0'']
       = (Inl ?e, [''/tmp/docker2aci-0/layer/rootfs'', ''/tmp/docker2aci-0''])"
    by (simp_all add: demo_sys_simps demo_repoData_def demo_GetRemoteImageJSON)
  have "fst (ImportLayer demo_lib ?S ''l1'' demo_repoData demo_dockerURL rocketDir '''' [])
          = Inl (wrap ''Error getting image json: '' ?e)"
    by (rule T7 [THEN conjunct1, THEN mp]) (intro conjI staging)
  then have imp: "fst (ImportLayer demo_lib ?S ''l1'' demo_repoData demo_dockerURL rocketDir
                         '''' []) = Inl ?er"
    by (simp only: wrap.simps append.simps)
  have pipeline:
    "GetRepoData demo_lib ?S (IndexURL (parseArgument ''r.io/app''))
       (ImageName (parseArgument ''r.io/app'')) [] = (Inr demo_repoData, [])"
    "GetImageIDFromTag demo_lib ?S (Endpoints demo_repoData ! 0)
       (ImageName (parseArgument ''r.io/app'')) (Tag (parseArgument ''r.io/app''))
       (Tokens demo_repoData) [] = (Inr ''l2'', [])"
    "GetAncestry demo_lib ?S ''l2'' (Endpoints demo_repoData ! 0) (Tokens demo_repoData) []
       = (Inr [''l2'', ''l1''], [])"
    by (simp_all add: demo_parseArgument demo_dockerURL_def demo_repoData_def
        demo_GetRepoData demo_GetImageIDFromTag demo_GetAncestry)
  have calls: "?calls = [\<lparr>call_layer = ''l1'', call_parent = '''', call_result = Inl ?er\<rparr>]"
    by (simp add: demo_parseArgument demo_import_loop_log_missing)
  then have failed: "0 < length ?calls" "call_result (?calls ! 0) = Inl ?er"
    by simp_all
  have "fst (runDocker2ACI demo_lib ?S ''r.io/app'' []) = Some ?er
        \<and> Suc 0 = length ?calls"
    by (rule T12 [THEN mp]) (intro conjI pipeline failed)
  then have run: "fst (runDocker2ACI demo_lib ?S ''r.io/app'' []) = Some ?er"
    by (rule conjunct1)
  from status resp json m1 imp m2 run show ?thesis
    by (intro conjI)
qed

section \<open>The archive builder\<close>

subsection \<open>File modes\<close>

lemma symlink_mode:
  assumes "fm AND ModeType = ModeSymlink"
  shows "fm AND ModeType \<noteq> 0" and "fm AND ModeDir = 0" and "fm AND ModeSymlink \<noteq> 0"
proof -
  show "fm AND ModeType \<noteq> 0"
    using assms by (simp add: ModeSymlink_def)
  have "fm AND ModeDir = (fm AND ModeType) AND ModeDir"
    by (simp add: mode_defs and.assoc)
  also have "\<dots> = 0"
    by (simp add: assms) (simp add: mode_defs)
  finally show "fm AND ModeDir = 0" .
  have "fm AND ModeSymlink = (fm AND ModeType) AND ModeSymlink"
    by (simp add: mode_defs and.assoc)
  also have "\<dots> = ModeSymlink"
    by (simp add: assms)
  finally show "fm AND ModeSymlink \<noteq> 0"
    by (simp add: ModeSymlink_def)
qed

lemma mode_consts:
  "ModeSymlink \<noteq> ModeCharDevice" "ModeSymlink \<noteq> ModeDevice" "ModeSymlink \<noteq> ModeDir"
  "0 \<noteq> ModeCharDevice" "0 \<noteq> ModeDevice" "0 \<noteq> ModeDir" "0 \<noteq> ModeSymlink"
  by (simp_all add: mode_defs)

text \<open>\<open>FileInfoHeader\<close> never makes a link entry; that is left to \<open>Populate\<close>.\<close>

lemma FileInfoHeader_not_link:
  "FileInfoHeader fi link = Inr h \<Longrightarrow> hdr_Typeflag h \<noteq> TypeLink"
  by (auto simp: FileInfoHeader_def Let_def split: if_splits)

lemma FileInfoHeader_regular:
  "fi_Mode fi AND ModeType = 0 \<Longrightarrow>
     FileInfoHeader fi link
       = Inr \<lparr>hdr_Name = fi_Name fi, hdr_Size = fi_Size fi, hdr_Typeflag = TypeReg,
              hdr_Linkname = ''''\<rparr>"
  by (simp add: FileInfoHeader_def Let_def)

lemma FileInfoHeader_symlink:
  "fi_Mode fi AND ModeType = ModeSymlink \<Longrightarrow>
     FileInfoHeader fi link
       = Inr \<lparr>hdr_Name = fi_Name fi, hdr_Size = 0, hdr_Typeflag = TypeSymlink,
              hdr_Linkname = link\<rparr>"
  by (simp add: FileInfoHeader_def Let_def symlink_mode mode_consts(7) [symmetric])

subsection \<open>One call of the walk function\<close>

text \<open>
  A call that returns no error has skipped the visit, or has written one entry as
  \<open>written\<close> says and put the inode in the cache if it was not there.
\<close>

lemma buildWalker_None:
  assumes "buildWalker L (record_AddFile reject) root v (inos, es) = (None, st')"
  shows "if visible L root v
         then filepath_Rel L root (v_path v) = Inr (relpath L root v)
              \<and> (\<exists>e. written inos v e \<and> e_path e = relpath L root v
                     \<and> st' = (case inos (fi_Ino (v_info v)) of
                                Some p \<Rightarrow> inos
                              | None \<Rightarrow> inos(fi_Ino (v_info v) \<mapsto> relpath L root v),
                              es @ [e]))
         else st' = (inos, es)"
proof (cases "filepath_Rel L root (v_path v)")
  case (Inl e)
  with assms show ?thesis
    by (simp add: buildWalker_def split: option.splits)
next
  case rel: (Inr r)
  from assms have err: "v_err v = None"
    by (simp add: buildWalker_def split: option.splits)
  show ?thesis
  proof (cases "r = ''.'' \<or> r = ManifestFile")
    case True
    with assms rel err show ?thesis
      by (auto simp: buildWalker_def visible_def ManifestFile_def)
  next
    case False
    with rel have vis: "visible L root v" and r: "relpath L root v = r"
      by (simp_all add: visible_def relpath_def)
    let ?t = "fi_Mode (v_info v) AND ModeType"
    let ?src = "if ?t = ModeCharDevice then Inr ('''', None)
                else if ?t = ModeDevice then Inr ('''', None)
                else if ?t = ModeDir then Inr ('''', None)
                else if ?t = ModeSymlink
                  then (case v_Readlink v of
                          Inl e \<Rightarrow> Inl e
                        | Inr target \<Rightarrow> Inr (target, None))
                else (case v_Open v of
                        Inl e \<Rightarrow> Inl e
                      | Inr file \<Rightarrow> Inr ('''', Some file))"
    from assms rel err False obtain link rd hdr0 where
      src: "?src = Inr (link, rd)"
      and hdr0: "FileInfoHeader (v_info v) link = Inr hdr0"
      by (cases ?src; cases "FileInfoHeader (v_info v) (fst (projr ?src))")
         (auto simp: buildWalker_def Let_def split: sum.splits)
    obtain hdr1 inos' where pop: "Populate (hdr0\<lparr>hdr_Name := r\<rparr>) (v_info v) inos = (hdr1, inos')"
      by (cases "Populate (hdr0\<lparr>hdr_Name := r\<rparr>) (v_info v) inos")
    let ?hdr = "if hdr_Typeflag hdr1 = TypeLink then hdr1\<lparr>hdr_Size := 0\<rparr> else hdr1"
    let ?r' = "if hdr_Typeflag hdr1 = TypeLink then None else rd"
    let ?e = "\<lparr>e_path = r, e_hdr = ?hdr, e_reader = ?r'\<rparr>"
    from assms rel err False src hdr0 pop
    have st': "st' = (inos', es @ [?e])"
      by (auto simp: buildWalker_def Let_def record_AddFile_def split: option.splits)
    have sym_rd: "rd = None" if "?t = ModeSymlink"
      using src that by (simp add: mode_consts split: sum.splits)
    have sym_link: "v_Readlink v = Inr link" if "?t = ModeSymlink"
      using src that by (simp add: mode_consts split: sum.splits)
    have reg_rd: "\<exists>c. v_Open v = Inr c \<and> rd = Some c" if "?t = 0"
      using src that mode_consts(4-7) by (auto split: sum.splits if_splits)
    show ?thesis
    proof (cases "inos (fi_Ino (v_info v))")
      case (Some p)
      with pop have "hdr1 = hdr0\<lparr>hdr_Name := r, hdr_Linkname := p, hdr_Typeflag := TypeLink\<rparr>"
        and "inos' = inos"
        by (simp_all add: Populate_def)
      with Some st' vis r rel show ?thesis
        by (auto simp: written_def)
    next
      case None
      with pop have hdr1: "hdr1 = hdr0\<lparr>hdr_Name := r\<rparr>"
        and inos': "inos' = inos(fi_Ino (v_info v) \<mapsto> r)"
        by (simp_all add: Populate_def)
      from FileInfoHeader_not_link [OF hdr0] hdr1
      have nolink: "hdr_Typeflag hdr1 \<noteq> TypeLink"
        by simp
      have "written inos v ?e"
        unfolding written_def
        using None nolink hdr1 hdr0 sym_rd sym_link reg_rd
        by (auto simp: FileInfoHeader_regular FileInfoHeader_symlink)
      with None st' inos' vis r rel show ?thesis
        by auto
    qed
  qed
qed

subsection \<open>The cache of inodes\<close>

lemma find_append:
  "find P (xs @ ys) = (case find P xs of Some x \<Rightarrow> Some x | None \<Rightarrow> find P ys)"
  by (induction xs) auto

lemma seen_in_Nil: "seen_in L root [] = Map.empty"
  by (simp add: seen_in_def)

lemma seen_in_snoc:
  "seen_in L root (pre @ [v])
     = (case seen_in L root pre (fi_Ino (v_info v)) of
          Some p \<Rightarrow> seen_in L root pre
        | None \<Rightarrow> (seen_in L root pre)(fi_Ino (v_info v) \<mapsto> relpath L root v))"
  by (rule ext) (auto simp: seen_in_def find_append split: option.splits)

lemma seen_in_first:
  assumes "i < length pre" and "fi_Ino (v_info (pre ! i)) = n"
    and "\<forall>k<i. fi_Ino (v_info (pre ! k)) \<noteq> n"
  shows "seen_in L root pre n = Some (relpath L root (pre ! i))"
proof -
  from assms have "find (\<lambda>v. fi_Ino (v_info v) = n) pre = Some (pre ! i)"
    unfolding find_Some_iff by blast
  then show ?thesis
    by (simp add: seen_in_def)
qed

lemma seen_in_fresh:
  assumes "\<forall>k<length pre. fi_Ino (v_info (pre ! k)) \<noteq> n"
  shows "seen_in L root pre n = None"
proof -
  from assms have "find (\<lambda>v. fi_Ino (v_info v) = n) pre = None"
    unfolding find_None_iff by (auto simp: in_set_conv_nth)
  then show ?thesis
    by (simp add: seen_in_def)
qed

subsection \<open>The walk\<close>

text \<open>
  A walk that returns no error has written one entry for each visible visit, in
  the order of the visits, each as \<open>written\<close> says for the cache of the visible
  visits before it.
\<close>

lemma Walk_run_buildWalker:
  assumes "Walk_run (buildWalker L (record_AddFile reject) root) vs (seen_in L root pre, es0)
             = (None, (inos, es))"
  shows "\<exists>es'. es = es0 @ es'
           \<and> inos = seen_in L root (pre @ filter (visible L root) vs)
           \<and> length es' = length (filter (visible L root) vs)
           \<and> (\<forall>j<length es'.
                 written (seen_in L root (pre @ take j (filter (visible L root) vs)))
                   (filter (visible L root) vs ! j) (es' ! j)
                 \<and> e_path (es' ! j) = relpath L root (filter (visible L root) vs ! j))"
  using assms
proof (induction vs arbitrary: pre es0)
  case Nil
  then show ?case
    by simp
next
  case (Cons v vs)
  let ?f = "buildWalker L (record_AddFile reject) root"
  from Cons.prems obtain st' where
    step: "?f v (seen_in L root pre, es0) = (None, st')"
    and rest: "Walk_run ?f vs st' = (None, (inos, es))"
    by (auto split: prod.splits option.splits)
  show ?case
  proof (cases "visible L root v")
    case False
    with buildWalker_None [OF step] have "st' = (seen_in L root pre, es0)"
      by simp
    with rest Cons.IH [of pre es0] False show ?thesis
      by simp
  next
    case True
    with buildWalker_None [OF step] obtain e where
      e: "written (seen_in L root pre) v e" "e_path e = relpath L root v"
      and st': "st' = (seen_in L root (pre @ [v]), es0 @ [e])"
      by (auto simp: seen_in_snoc)
    let ?vis = "filter (visible L root) vs"
    from rest st' Cons.IH [of "pre @ [v]" "es0 @ [e]"] obtain es' where
      es: "es = (es0 @ [e]) @ es'"
      and inos: "inos = seen_in L root ((pre @ [v]) @ ?vis)"
      and len: "length es' = length ?vis"
      and each: "\<forall>j<length es'.
                   written (seen_in L root ((pre @ [v]) @ take j ?vis)) (?vis ! j) (es' ! j)
                   \<and> e_path (es' ! j) = relpath L root (?vis ! j)"
      by blast
    have "\<forall>j<length (e # es').
            written (seen_in L root (pre @ take j (v # ?vis))) ((v # ?vis) ! j) ((e # es') ! j)
            \<and> e_path ((e # es') ! j) = relpath L root ((v # ?vis) ! j)"
    proof (intro allI impI)
      fix j
      assume j: "j < length (e # es')"
      show "written (seen_in L root (pre @ take j (v # ?vis))) ((v # ?vis) ! j) ((e # es') ! j)
            \<and> e_path ((e # es') ! j) = relpath L root ((v # ?vis) ! j)"
      proof (cases j)
        case 0
        with e show ?thesis
          by simp
      next
        case (Suc k)
        with j each show ?thesis
          by simp
      qed
    qed
    with es inos len True show ?thesis
      by (intro exI [of _ "e # es'"]) simp
  qed
qed

lemma Walk_run_entries:
  assumes "Walk_run (buildWalker L (record_AddFile reject) root) vs (Map.empty, [])
             = (None, (inos, es))"
  shows "length es = length (filter (visible L root) vs)"
    and "j < length es \<Longrightarrow>
           written (seen_in L root (take j (filter (visible L root) vs)))
             (filter (visible L root) vs ! j) (es ! j)"
    and "j < length es \<Longrightarrow> e_path (es ! j) = relpath L root (filter (visible L root) vs ! j)"
  using Walk_run_buildWalker [of L reject root vs "[]" "[]" inos es] assms
  by (simp_all add: seen_in_Nil)

lemma seen_in_None_iff:
  "seen_in L root pre n = None \<longleftrightarrow> (\<forall>k<length pre. fi_Ino (v_info (pre ! k)) \<noteq> n)"
  by (auto simp: seen_in_def find_None_iff in_set_conv_nth)

lemma seen_in_take:
  assumes "j \<le> length vis"
  shows "seen_in L root (take j vis) n = None
           \<longleftrightarrow> (\<forall>k<j. fi_Ino (v_info (vis ! k)) \<noteq> n)"
  using assms by (simp add: seen_in_None_iff min_absorb2)

lemma seen_in_take_first:
  assumes "i < j" and "j \<le> length vis" and "fi_Ino (v_info (vis ! i)) = n"
    and "\<forall>k<i. fi_Ino (v_info (vis ! k)) \<noteq> n"
  shows "seen_in L root (take j vis) n = Some (relpath L root (vis ! i))"
  using assms seen_in_first [of i "take j vis" n L root] by simp

subsection \<open>Hard links and symbolic links\<close>

text \<open>
  The entries that the walk over the tree under \<open>/t\<close> writes: the directory, the
  shell with its content, its second name as a link to the first, and the symbolic
  link with its target.
\<close>

lemma demo_Walk_run:
  "fst demo_walk = None"
  "snd (snd demo_walk)
     = [\<lparr>e_path = ''rootfs'',
         e_hdr = \<lparr>hdr_Name = ''rootfs'', hdr_Size = 0, hdr_Typeflag = TypeDir,
                  hdr_Linkname = ''''\<rparr>,
         e_reader = None\<rparr>,
        \<lparr>e_path = ''rootfs/ash'',
         e_hdr = \<lparr>hdr_Name = ''rootfs/ash'', hdr_Size = 5, hdr_Typeflag = TypeReg,
                  hdr_Linkname = ''''\<rparr>,
         e_reader = Some ''shell''\<rparr>,
        \<lparr>e_path = ''rootfs/sh'',
         e_hdr = \<lparr>hdr_Name = ''rootfs/sh'', hdr_Size = 0, hdr_Typeflag = TypeLink,
                  hdr_Linkname = ''rootfs/ash''\<rparr>,
         e_reader = None\<rparr>,
        \<lparr>e_path = ''rootfs/shell'',
         e_hdr = \<lparr>hdr_Name = ''rootfs/shell'', hdr_Size = 0, hdr_Typeflag = TypeSymlink,
                  hdr_Linkname = ''sh''\<rparr>,
         e_reader = None\<rparr>]"
  by (simp_all add: demo_walk_def buildWalker_def record_AddFile_def Let_def demo_visits_def
      demo_lib_simps ManifestFile_def FileInfoHeader_def Populate_def mode_defs)

lemma demo_visible:
  "filter (visible demo_lib ''/t'') (demo_visits ''/t'') = drop 2 (demo_visits ''/t'')"
  by (simp add: visible_def demo_visits_def demo_lib_simps ManifestFile_def)

text \<open>
  C3. In the archive that a walk without error writes, the entries are those of the
  visits that the walk function does not skip (the root and the manifest file), in
  their order and under their paths relative to the root. An entry is a link entry
  exactly when the inode of its file is that of an earlier entry. Of the files that
  share one inode, the first is written as what it is, a regular file with its size
  and a reader of its content, and every later one as a link entry of size 0, without
  a reader, that names the path of the first. The entry of a symbolic link never has
  a reader, and unless it is a link to an earlier entry of the same inode it is a
  symbolic-link entry whose target is the string that \<open>os.Readlink\<close> returned.
\<close>

theorem buildWalker_links:
  assumes "Walk_run (buildWalker L (record_AddFile reject) root) vs (Map.empty, [])
             = (None, (inos, es))"
    and "vis = filter (visible L root) vs"
  shows "length es = length vis
    \<and> (\<forall>j<length vis.
          e_path (es ! j) = relpath L root (vis ! j)
          \<and> hdr_Name (e_hdr (es ! j)) = relpath L root (vis ! j)
          \<and> (hdr_Typeflag (e_hdr (es ! j)) = TypeLink
               \<longleftrightarrow> (\<exists>k<j. fi_Ino (v_info (vis ! k)) = fi_Ino (v_info (vis ! j)))))
    \<and> (\<forall>i j. i < j \<and> j < length vis
          \<and> fi_Ino (v_info (vis ! i)) = fi_Ino (v_info (vis ! j))
          \<and> (\<forall>k<i. fi_Ino (v_info (vis ! k)) \<noteq> fi_Ino (v_info (vis ! j))) \<longrightarrow>
          hdr_Typeflag (e_hdr (es ! j)) = TypeLink
          \<and> hdr_Size (e_hdr (es ! j)) = 0
          \<and> e_reader (es ! j) = None
          \<and> hdr_Linkname (e_hdr (es ! j)) = e_path (es ! i)
          \<and> hdr_Typeflag (e_hdr (es ! i)) \<noteq> TypeLink
          \<and> (fi_Mode (v_info (vis ! i)) AND ModeType = 0 \<longrightarrow>
               hdr_Typeflag (e_hdr (es ! i)) = TypeReg
               \<and> hdr_Size (e_hdr (es ! i)) = fi_Size (v_info (vis ! i))
               \<and> (\<exists>c. v_Open (vis ! i) = Inr c \<and> e_reader (es ! i) = Some c)))
    \<and> (\<forall>j<length vis. fi_Mode (v_info (vis ! j)) AND ModeType = ModeSymlink \<longrightarrow>
          e_reader (es ! j) = None
          \<and> (if \<exists>k<j. fi_Ino (v_info (vis ! k)) = fi_Ino (v_info (vis ! j))
             then hdr_Typeflag (e_hdr (es ! j)) = TypeLink
             else hdr_Typeflag (e_hdr (es ! j)) = TypeSymlink
                  \<and> v_Readlink (vis ! j) = Inr (hdr_Linkname (e_hdr (es ! j)))))"
proof -
  note entries = Walk_run_entries [OF assms(1), folded assms(2)]
  have len: "length es = length vis"
    by (rule entries(1))
  have path: "e_path (es ! j) = relpath L root (vis ! j)" if "j < length vis" for j
    using that len by (simp add: entries(3))
  have wr: "written (seen_in L root (take j vis)) (vis ! j) (es ! j)" if "j < length vis" for j
    using that len by (simp add: entries(2))
  have fresh: "seen_in L root (take j vis) (fi_Ino (v_info (vis ! j))) = None
                 \<longleftrightarrow> \<not> (\<exists>k<j. fi_Ino (v_info (vis ! k)) = fi_Ino (v_info (vis ! j)))"
    if "j < length vis" for j
    using that by (simp add: seen_in_take)
  have link: "hdr_Typeflag (e_hdr (es ! j)) = TypeLink
                \<longleftrightarrow> (\<exists>k<j. fi_Ino (v_info (vis ! k)) = fi_Ino (v_info (vis ! j)))"
    if "j < length vis" for j
    using wr [OF that] fresh [OF that]
    by (cases "seen_in L root (take j vis) (fi_Ino (v_info (vis ! j)))")
       (auto simp: written_def)
  have name: "hdr_Name (e_hdr (es ! j)) = relpath L root (vis ! j)" if "j < length vis" for j
    using wr [OF that] path [OF that] by (simp add: written_def)
  have shared:
    "hdr_Typeflag (e_hdr (es ! j)) = TypeLink
     \<and> hdr_Size (e_hdr (es ! j)) = 0
     \<and> e_reader (es ! j) = None
     \<and> hdr_Linkname (e_hdr (es ! j)) = e_path (es ! i)
     \<and> hdr_Typeflag (e_hdr (es ! i)) \<noteq> TypeLink
     \<and> (fi_Mode (v_info (vis ! i)) AND ModeType = 0 \<longrightarrow>
          hdr_Typeflag (e_hdr (es ! i)) = TypeReg
          \<and> hdr_Size (e_hdr (es ! i)) = fi_Size (v_info (vis ! i))
          \<and> (\<exists>c. v_Open (vis ! i) = Inr c \<and> e_reader (es ! i) = Some c))"
    if ij: "i < j" "j < length vis"
      and same: "fi_Ino (v_info (vis ! i)) = fi_Ino (v_info (vis ! j))"
      and least: "\<forall>k<i. fi_Ino (v_info (vis ! k)) \<noteq> fi_Ino (v_info (vis ! j))"
    for i j
  proof -
    from ij have i: "i < length vis"
      by simp
    from ij same least
    have "seen_in L root (take j vis) (fi_Ino (v_info (vis ! j)))
            = Some (relpath L root (vis ! i))"
      by (intro seen_in_take_first) simp_all
    with wr [OF ij(2)] path [OF i]
    have later: "hdr_Typeflag (e_hdr (es ! j)) = TypeLink" "hdr_Size (e_hdr (es ! j)) = 0"
      "e_reader (es ! j) = None" "hdr_Linkname (e_hdr (es ! j)) = e_path (es ! i)"
      by (simp_all add: written_def)
    from least same i
    have "seen_in L root (take i vis) (fi_Ino (v_info (vis ! i))) = None"
      by (simp add: seen_in_take)
    with wr [OF i]
    have "hdr_Typeflag (e_hdr (es ! i)) \<noteq> TypeLink"
      and "fi_Mode (v_info (vis ! i)) AND ModeType = 0 \<longrightarrow>
             hdr_Typeflag (e_hdr (es ! i)) = TypeReg
             \<and> hdr_Size (e_hdr (es ! i)) = fi_Size (v_info (vis ! i))
             \<and> (\<exists>c. v_Open (vis ! i) = Inr c \<and> e_reader (es ! i) = Some c)"
      by (simp_all add: written_def)
    with later show ?thesis
      by (intro conjI)
  qed
  have symlink:
    "e_reader (es ! j) = None
     \<and> (if \<exists>k<j. fi_Ino (v_info (vis ! k)) = fi_Ino (v_info (vis ! j))
        then hdr_Typeflag (e_hdr (es ! j)) = TypeLink
        else hdr_Typeflag (e_hdr (es ! j)) = TypeSymlink
             \<and> v_Readlink (vis ! j) = Inr (hdr_Linkname (e_hdr (es ! j))))"
    if j: "j < length vis" and sym: "fi_Mode (v_info (vis ! j)) AND ModeType = ModeSymlink"
    for j
  proof (cases "seen_in L root (take j vis) (fi_Ino (v_info (vis ! j)))")
    case None
    with wr [OF j] sym fresh [OF j] link [OF j] show ?thesis
      by (simp add: written_def)
  next
    case (Some p)
    with wr [OF j] sym fresh [OF j] link [OF j] show ?thesis
      by (simp add: written_def)
  qed
  have named:
    "\<forall>j<length vis.
       e_path (es ! j) = relpath L root (vis ! j)
       \<and> hdr_Name (e_hdr (es ! j)) = relpath L root (vis ! j)
       \<and> (hdr_Typeflag (e_hdr (es ! j)) = TypeLink
            \<longleftrightarrow> (\<exists>k<j. fi_Ino (v_info (vis ! k)) = fi_Ino (v_info (vis ! j))))"
    by (intro allI impI conjI; (rule path name link; assumption))
  have hard:
    "\<forall>i j. i < j \<and> j < length vis
       \<and> fi_Ino (v_info (vis ! i)) = fi_Ino (v_info (vis ! j))
       \<and> (\<forall>k<i. fi_Ino (v_info (vis ! k)) \<noteq> fi_Ino (v_info (vis ! j))) \<longrightarrow>
       hdr_Typeflag (e_hdr (es ! j)) = TypeLink
       \<and> hdr_Size (e_hdr (es ! j)) = 0
       \<and> e_reader (es ! j) = None
       \<and> hdr_Linkname (e_hdr (es ! j)) = e_path (es ! i)
       \<and> hdr_Typeflag (e_hdr (es ! i)) \<noteq> TypeLink
       \<and> (fi_Mode (v_info (vis ! i)) AND ModeType = 0 \<longrightarrow>
            hdr_Typeflag (e_hdr (es ! i)) = TypeReg
            \<and> hdr_Size (e_hdr (es ! i)) = fi_Size (v_info (vis ! i))
            \<and> (\<exists>c. v_Open (vis ! i) = Inr c \<and> e_reader (es ! i) = Some c))"
    by (intro allI impI, elim conjE, rule shared; assumption)
  have soft:
    "\<forall>j<length vis. fi_Mode (v_info (vis ! j)) AND ModeType = ModeSymlink \<longrightarrow>
       e_reader (es ! j) = None
       \<and> (if \<exists>k<j. fi_Ino (v_info (vis ! k)) = fi_Ino (v_info (vis ! j))
          then hdr_Typeflag (e_hdr (es ! j)) = TypeLink
          else hdr_Typeflag (e_hdr (es ! j)) = TypeSymlink
               \<and> v_Readlink (vis ! j) = Inr (hdr_Linkname (e_hdr (es ! j))))"
    by (intro allI impI, rule symlink; assumption)
  from len named hard soft show ?thesis
    by (intro conjI)
qed

theorem buildWalker_links_witness:
  "fst demo_walk = None
   \<and> drop 2 (demo_visits ''/t'') = filter (visible demo_lib ''/t'') (demo_visits ''/t'')
   \<and> length (snd (snd demo_walk)) = length (drop 2 (demo_visits ''/t''))
   \<and> fi_Ino (v_info (drop 2 (demo_visits ''/t'') ! 1))
       = fi_Ino (v_info (drop 2 (demo_visits ''/t'') ! 2))
   \<and> hdr_Typeflag (e_hdr (snd (snd demo_walk) ! 2)) = TypeLink
   \<and> hdr_Size (e_hdr (snd (snd demo_walk) ! 2)) = 0
   \<and> e_reader (snd (snd demo_walk) ! 2) = None
   \<and> hdr_Linkname (e_hdr (snd (snd demo_walk) ! 2)) = e_path (snd (snd demo_walk) ! 1)
   \<and> e_path (snd (snd demo_walk) ! 1) = ''rootfs/ash''
   \<and> hdr_Typeflag (e_hdr (snd (snd demo_walk) ! 1)) = TypeReg
   \<and> hdr_Size (e_hdr (snd (snd demo_walk) ! 1)) = 5
   \<and> e_reader (snd (snd demo_walk) ! 1) = Some ''shell''
   \<and> fi_Mode (v_info (drop 2 (demo_visits ''/t'') ! 3)) AND ModeType = ModeSymlink
   \<and> e_reader (snd (snd demo_walk) ! 3) = None
   \<and> hdr_Typeflag (e_hdr (snd (snd demo_walk) ! 3)) = TypeSymlink
   \<and> hdr_Linkname (e_hdr (snd (snd demo_walk) ! 3)) = ''sh''"
proof -
  let ?vis = "drop 2 (demo_visits ''/t'')"
  let ?es = "snd (snd demo_walk)"
  have ok: "fst demo_walk = None"
    by (rule demo_Walk_run(1))
  then have walk:
    "Walk_run (buildWalker demo_lib (record_AddFile (\<lambda>e. None)) ''/t'') (demo_visits ''/t'')
       (Map.empty, []) = (None, (fst (snd demo_walk), ?es))"
    by (simp add: demo_walk_def [symmetric] prod_eq_iff)
  have vis: "?vis = filter (visible demo_lib ''/t'') (demo_visits ''/t'')"
    by (rule demo_visible [symmetric])
  note T = buildWalker_links [OF walk vis]
  have len: "length ?es = length ?vis"
    by (rule T [THEN conjunct1])
  have same: "fi_Ino (v_info (?vis ! 1)) = fi_Ino (v_info (?vis ! 2))"
    by (simp add: demo_visits_def)
  have first: "\<forall>k<1. fi_Ino (v_info (?vis ! k)) \<noteq> fi_Ino (v_info (?vis ! 2))"
    by (simp add: demo_visits_def)
  have in_range: "(1::nat) < 2" "2 < length ?vis" "3 < length ?vis"
    by (simp_all add: demo_visits_def)
  note S = T [THEN conjunct2, THEN conjunct2, THEN conjunct1, rule_format, of 1 2,
      OF conjI [OF in_range(1) conjI [OF in_range(2) conjI [OF same first]]]]
  have link: "hdr_Typeflag (e_hdr (?es ! 2)) = TypeLink"
    by (rule S [THEN conjunct1])
  have size0: "hdr_Size (e_hdr (?es ! 2)) = 0"
    by (rule S [THEN conjunct2, THEN conjunct1])
  have no_reader: "e_reader (?es ! 2) = None"
    by (rule S [THEN conjunct2, THEN conjunct2, THEN conjunct1])
  have target: "hdr_Linkname (e_hdr (?es ! 2)) = e_path (?es ! 1)"
    by (rule S [THEN conjunct2, THEN conjunct2, THEN conjunct2, THEN conjunct1])
  have path: "e_path (?es ! 1) = ''rootfs/ash''"
    by (simp add: demo_Walk_run(2))
  have regular: "fi_Mode (v_info (?vis ! 1)) AND ModeType = 0"
    by (simp add: demo_visits_def mode_defs)
  note R = S [THEN conjunct2, THEN conjunct2, THEN conjunct2, THEN conjunct2, THEN conjunct2,
      THEN mp, OF regular]
  have reg: "hdr_Typeflag (e_hdr (?es ! 1)) = TypeReg"
    by (rule R [THEN conjunct1])
  from R [THEN conjunct2, THEN conjunct1]
  have size: "hdr_Size (e_hdr (?es ! 1)) = 5"
    by (simp add: demo_visits_def)
  from R [THEN conjunct2, THEN conjunct2]
  have content: "e_reader (?es ! 1) = Some ''shell''"
    by (auto simp: demo_visits_def)
  have sym: "fi_Mode (v_info (?vis ! 3)) AND ModeType = ModeSymlink"
    by (simp add: demo_visits_def mode_defs)
  note Y = T [THEN conjunct2, THEN conjunct2, THEN conjunct2, rule_format, of 3,
      OF in_range(3) sym]
  have unseen: "\<not> (\<exists>k<3. fi_Ino (v_info (?vis ! k)) = fi_Ino (v_info (?vis ! 3)))"
  proof
    assume "\<exists>k<3. fi_Ino (v_info (?vis ! k)) = fi_Ino (v_info (?vis ! 3))"
    then obtain k where k: "k < 3"
      and eq: "fi_Ino (v_info (?vis ! k)) = fi_Ino (v_info (?vis ! 3))"
      by blast
    from k have "k = 0 \<or> k = 1 \<or> k = 2"
      by arith
    with eq show False
      by (auto simp: demo_visits_def)
  qed
  have sym_reader: "e_reader (?es ! 3) = None"
    by (rule Y [THEN conjunct1])
  from Y [THEN conjunct2] unseen
  have sym_entry: "hdr_Typeflag (e_hdr (?es ! 3)) = TypeSymlink
                   \<and> v_Readlink (?vis ! 3) = Inr (hdr_Linkname (e_hdr (?es ! 3)))"
    by (simp only: if_False)
  then have sym_flag: "hdr_Typeflag (e_hdr (?es ! 3)) = TypeSymlink"
    by (rule conjunct1)
  from sym_entry have sym_target: "hdr_Linkname (e_hdr (?es ! 3)) = ''sh''"
    by (simp add: demo_visits_def)
  from ok vis len same link size0 no_reader target path reg size content sym sym_reader
    sym_flag sym_target
  show ?thesis
    by (intro conjI)
qed

end
